theory Spec2Isabelle
  imports Complex_Main "HOL-Library.AList" "HOL-Library.Char_ord" "HOL-Library.List_Lexorder"
begin

section \<open>JavaScript numbers\<close>

text \<open>
  A JavaScript number is a finite value, kept as a rational, or one of the three
  non-finite values. A result whose exact value lies at or beyond
  \<open>2^1024 - 2^970\<close>, where doubles round to infinity, is the infinity of its sign.
  Below that bound results are kept exact: rounding to the nearest double (and the
  underflow to zero) is not modelled, and the negative zero is identified with zero.
  Division is the IEEE one: a nonzero number divided by zero is an infinity, zero
  divided by zero is NaN.
\<close>

datatype jsnum = Fin rat | PInf | NInf | NaN

fun is_finite :: "jsnum \<Rightarrow> bool" where
  "is_finite (Fin r) = True"
| "is_finite PInf = False"
| "is_finite NInf = False"
| "is_finite NaN = False"

text \<open>The first magnitude that rounds to infinity: \<open>2^1024 - 2^970\<close>.\<close>

definition overflow_bound :: rat where
  "overflow_bound = 179769313486231580793728971405303415079934132710037826936173778980444968292764750946649017977587207096330286416692887910946555547851940402630657488671505820681908902000708383676273854845817711531764475730270069855571366959622842914819860834936475292719074168444365510704342711559699508093042880177904174497792"

text \<open>The infinity whose sign is that of \<open>s\<close> (positive when \<open>s\<close> holds).\<close>

definition inf_of :: "bool \<Rightarrow> jsnum" where
  "inf_of s = (if s then PInf else NInf)"

text \<open>The number that an arithmetic result of exact value \<open>r\<close> is.\<close>

definition js_fin :: "rat \<Rightarrow> jsnum" where
  "js_fin r = (if overflow_bound \<le> r then PInf else if r \<le> - overflow_bound then NInf else Fin r)"

text \<open>ToBoolean on a number: zero and NaN are falsy.\<close>

fun truthy :: "jsnum \<Rightarrow> bool" where
  "truthy (Fin r) = (r \<noteq> 0)"
| "truthy PInf = True"
| "truthy NInf = True"
| "truthy NaN = False"

text \<open>\<open>a <= b\<close>; every comparison with NaN is false.\<close>

fun js_le :: "jsnum \<Rightarrow> jsnum \<Rightarrow> bool" where
  "js_le NaN b = False"
| "js_le a NaN = False"
| "js_le NInf b = True"
| "js_le a PInf = True"
| "js_le (Fin a) (Fin b) = (a \<le> b)"
| "js_le PInf b = False"
| "js_le (Fin a) NInf = False"

definition js_ge :: "jsnum \<Rightarrow> jsnum \<Rightarrow> bool" where
  "js_ge a b = js_le b a"

definition js_lt :: "jsnum \<Rightarrow> jsnum \<Rightarrow> bool" where
  "js_lt a b = (js_le a b \<and> \<not> js_le b a)"

definition js_gt :: "jsnum \<Rightarrow> jsnum \<Rightarrow> bool" where
  "js_gt a b = js_lt b a"

fun js_neg :: "jsnum \<Rightarrow> jsnum" where
  "js_neg (Fin r) = Fin (- r)"
| "js_neg PInf = NInf"
| "js_neg NInf = PInf"
| "js_neg NaN = NaN"

fun js_add :: "jsnum \<Rightarrow> jsnum \<Rightarrow> jsnum" where
  "js_add NaN b = NaN"
| "js_add a NaN = NaN"
| "js_add (Fin a) (Fin b) = js_fin (a + b)"
| "js_add PInf NInf = NaN"
| "js_add NInf PInf = NaN"
| "js_add PInf b = PInf"
| "js_add NInf b = NInf"
| "js_add (Fin a) b = b"

definition js_sub :: "jsnum \<Rightarrow> jsnum \<Rightarrow> jsnum" where
  "js_sub a b = js_add a (js_neg b)"

fun js_mul :: "jsnum \<Rightarrow> jsnum \<Rightarrow> jsnum" where
  "js_mul NaN b = NaN"
| "js_mul a NaN = NaN"
| "js_mul (Fin a) (Fin b) = js_fin (a * b)"
| "js_mul (Fin a) PInf = (if a = 0 then NaN else inf_of (0 < a))"
| "js_mul (Fin a) NInf = (if a = 0 then NaN else inf_of (a < 0))"
| "js_mul PInf (Fin b) = (if b = 0 then NaN else inf_of (0 < b))"
| "js_mul NInf (Fin b) = (if b = 0 then NaN else inf_of (b < 0))"
| "js_mul PInf PInf = PInf"
| "js_mul NInf NInf = PInf"
| "js_mul PInf NInf = NInf"
| "js_mul NInf PInf = NInf"

fun js_div :: "jsnum \<Rightarrow> jsnum \<Rightarrow> jsnum" where
  "js_div NaN b = NaN"
| "js_div a NaN = NaN"
| "js_div (Fin a) (Fin b) =
     (if b \<noteq> 0 then js_fin (a / b) else if a = 0 then NaN else inf_of (0 < a))"
| "js_div (Fin a) b = Fin 0"
| "js_div PInf (Fin b) = inf_of (0 \<le> b)"
| "js_div NInf (Fin b) = inf_of (b < 0)"
| "js_div a b = NaN"

section \<open>JavaScript strings and the numbers they spell\<close>

text \<open>
  A JavaScript string is the list of its UTF-16 code units, as integers; the field
  names, cell addresses and year keys of the code, all ASCII, are kept as
  \<open>string\<close>.
\<close>

type_synonym jsstring = "int list"

definition ascii :: "string \<Rightarrow> jsstring" where
  "ascii s = map of_char s"

text \<open>The class \<open>\s\<close>: white space and line terminators.\<close>

definition is_space :: "int \<Rightarrow> bool" where
  "is_space c = (c = 9 \<or> c = 10 \<or> c = 11 \<or> c = 12 \<or> c = 13 \<or> c = 32 \<or> c = 160
     \<or> c = 5760 \<or> (8192 \<le> c \<and> c \<le> 8202) \<or> c = 8232 \<or> c = 8233 \<or> c = 8239
     \<or> c = 8287 \<or> c = 12288 \<or> c = 65279)"

definition is_digit :: "int \<Rightarrow> bool" where
  "is_digit c = (48 \<le> c \<and> c \<le> 57)"

definition digits_val :: "jsstring \<Rightarrow> int" where
  "digits_val ds = foldl (\<lambda>a c. 10 * a + (c - 48)) 0 ds"

text \<open>\<open>trim\<close>: the white space at both ends is removed.\<close>

definition js_trim :: "jsstring \<Rightarrow> jsstring" where
  "js_trim s = rev (dropWhile is_space (rev (dropWhile is_space s)))"

text \<open>An optional sign: whether it is a minus, and the rest.\<close>

definition read_sign :: "jsstring \<Rightarrow> bool \<times> jsstring" where
  "read_sign s =
     (case s of
        [] \<Rightarrow> (False, [])
      | c # r \<Rightarrow> if c = 45 then (True, r) else if c = 43 then (False, r) else (False, s))"

text \<open>
  The exponent part \<open>e\<close>, sign, digits, and what follows it; exponent 0 and the
  whole text when there is none.
\<close>

definition read_exponent :: "jsstring \<Rightarrow> int \<times> jsstring" where
  "read_exponent s =
     (case s of
        [] \<Rightarrow> (0, [])
      | c # r \<Rightarrow>
          if c = 101 \<or> c = 69 then
            (let (neg, r') = read_sign r; ds = takeWhile is_digit r'
             in if ds = [] then (0, s)
                else (if neg then - digits_val ds else digits_val ds, dropWhile is_digit r'))
          else (0, s))"

text \<open>
  The longest prefix that is an unsigned decimal literal (\<open>Infinity\<close>, or digits, a
  dot and digits, an exponent): its value and what follows it; \<open>None\<close> when there is
  no such prefix.
\<close>

definition read_unsigned :: "jsstring \<Rightarrow> (jsnum \<times> jsstring) option" where
  "read_unsigned u =
     (if take 8 u = ascii ''Infinity'' then Some (PInf, drop 8 u)
      else
        (let ip = takeWhile is_digit u;
             r1 = dropWhile is_digit u;
             (fp, r2) = (case r1 of
                           [] \<Rightarrow> ([], [])
                         | c # r \<Rightarrow>
                             if c = 46 then (takeWhile is_digit r, dropWhile is_digit r)
                             else ([], r1))
         in if ip = [] \<and> fp = [] then None
            else
              (let mant = of_int (digits_val ip) + of_int (digits_val fp) / 10 ^ length fp;
                   (e, r3) = read_exponent r2;
                   m = (if 0 \<le> e then mant * 10 ^ nat e else mant / 10 ^ nat (- e))
               in Some (js_fin m, r3))))"

definition read_signed :: "jsstring \<Rightarrow> (jsnum \<times> jsstring) option" where
  "read_signed t =
     (let (neg, u) = read_sign t
      in case read_unsigned u of
           None \<Rightarrow> None
         | Some (v, r) \<Rightarrow> Some (if neg then js_neg v else v, r))"

text \<open>
  \<open>parseFloat\<close>: leading white space is skipped, then the longest prefix that is a
  decimal literal is read, whatever follows being ignored; NaN when there is no such
  prefix.
\<close>

definition parseFloat :: "jsstring \<Rightarrow> jsnum" where
  "parseFloat s =
     (case read_signed (dropWhile is_space s) of
        None \<Rightarrow> NaN
      | Some (v, r) \<Rightarrow> v)"

text \<open>
  The value of the digits of a literal in base 16, 8 or 2; \<open>None\<close> when there is no
  digit or one that is not of the base.
\<close>

definition digit_in :: "int \<Rightarrow> int \<Rightarrow> int option" where
  "digit_in radix c =
     (let d = (if 48 \<le> c \<and> c \<le> 57 then c - 48
               else if 97 \<le> c \<and> c \<le> 102 then c - 87
               else if 65 \<le> c \<and> c \<le> 70 then c - 55
               else radix)
      in if d < radix then Some d else None)"

fun radix_val :: "int \<Rightarrow> int \<Rightarrow> jsstring \<Rightarrow> int option" where
  "radix_val radix acc [] = Some acc"
| "radix_val radix acc (c # r) =
     (case digit_in radix c of
        None \<Rightarrow> None
      | Some d \<Rightarrow> radix_val radix (radix * acc + d) r)"

definition radix_literal :: "int \<Rightarrow> jsstring \<Rightarrow> jsnum" where
  "radix_literal radix ds =
     (if ds = [] then NaN
      else (case radix_val radix 0 ds of None \<Rightarrow> NaN | Some v \<Rightarrow> js_fin (of_int v)))"

text \<open>
  \<open>Number(s)\<close> on a string: the trimmed text must be empty (0), a literal
  \<open>0x\<close>, \<open>0o\<close>, \<open>0b\<close>, or a decimal literal with nothing after it; else NaN.
\<close>

definition string_to_number :: "jsstring \<Rightarrow> jsnum" where
  "string_to_number s =
     (let t = js_trim s
      in if t = [] then Fin 0
         else if take 2 t = ascii ''0x'' \<or> take 2 t = ascii ''0X'' then radix_literal 16 (drop 2 t)
         else if take 2 t = ascii ''0o'' \<or> take 2 t = ascii ''0O'' then radix_literal 8 (drop 2 t)
         else if take 2 t = ascii ''0b'' \<or> take 2 t = ascii ''0B'' then radix_literal 2 (drop 2 t)
         else (case read_signed t of
                 Some (v, []) \<Rightarrow> v
               | _ \<Rightarrow> NaN))"

section \<open>Norm tables and compliance (FinancialCalculator)\<close>

text \<open>
  A norm entry \<open>{ min?, max?, optimal? }\<close>; an absent field is \<open>None\<close>.
\<close>

record norm_entry =
  nmin :: "jsnum option"
  nmax :: "jsnum option"
  optimal :: "jsnum option"

datatype status = Critical | Poor | Acceptable | Good | Excellent

text \<open>The texts of the recommendations, with the number they quote.\<close>

datatype recommendation =
    ImproveToMin jsnum
  | MustReachMin jsnum
  | CriticalActNow
  | ReduceToMax jsnum
  | MustBeBelowMax jsnum
  | CriticalReduceNow

record compliance =
  ratioName :: string
  cvalue :: jsnum
  cnorm :: norm_entry
  isCompliant :: bool
  status :: status
  recommendation :: "recommendation option"

text \<open>\<open>norm.optimal || d\<close>: the optimal bound when it is set and truthy, else \<open>d\<close>.\<close>

definition opt_or :: "jsnum option \<Rightarrow> jsnum \<Rightarrow> jsnum" where
  "opt_or e d = (case e of None \<Rightarrow> d | Some v \<Rightarrow> if truthy v then v else d)"

definition result :: "string \<Rightarrow> jsnum \<Rightarrow> norm_entry \<Rightarrow> bool \<Rightarrow> status
    \<Rightarrow> recommendation option \<Rightarrow> compliance" where
  "result k v n c s r =
     \<lparr>ratioName = k, cvalue = v, cnorm = n, isCompliant = c, status = s, recommendation = r\<rparr>"

definition evaluateCompliance :: "string \<Rightarrow> jsnum \<Rightarrow> norm_entry \<Rightarrow> compliance" where
  "evaluateCompliance k v n =
     (case (nmin n, nmax n) of
        (Some m, None) \<Rightarrow>
          if js_ge v (opt_or (optimal n) (js_mul m (Fin 1.5))) then result k v n True Excellent None
          else if js_ge v m then result k v n True Good None
          else if js_ge v (js_mul m (Fin 0.8)) then
            result k v n True Acceptable (Some (ImproveToMin m))
          else if js_ge v (js_mul m (Fin 0.6)) then
            result k v n False Poor (Some (MustReachMin m))
          else result k v n False Critical (Some CriticalActNow)
      | (None, Some x) \<Rightarrow>
          if js_le v (opt_or (optimal n) (js_mul x (Fin 0.7))) then result k v n True Excellent None
          else if js_le v x then result k v n True Good None
          else if js_le v (js_mul x (Fin 1.2)) then
            result k v n True Acceptable (Some (ReduceToMax x))
          else if js_le v (js_mul x (Fin 1.5)) then
            result k v n False Poor (Some (MustBeBelowMax x))
          else result k v n False Critical (Some CriticalReduceNow)
      | _ \<Rightarrow> result k v n True Good None)"

definition min_norm :: "rat \<Rightarrow> rat \<Rightarrow> norm_entry" where
  "min_norm m opt = \<lparr>nmin = Some (Fin m), nmax = None, optimal = Some (Fin opt)\<rparr>"

definition max_norm :: "rat \<Rightarrow> rat \<Rightarrow> norm_entry" where
  "max_norm x opt = \<lparr>nmin = None, nmax = Some (Fin x), optimal = Some (Fin opt)\<rparr>"

definition BCEAO_NORMS :: "(string \<times> norm_entry) list" where
  "BCEAO_NORMS =
    [(''ratio_liquidite_generale'', min_norm 1.2 2.0),
     (''ratio_liquidite_reduite'', min_norm 1.0 1.5),
     (''ratio_liquidite_immediate'', min_norm 0.3 0.8),
     (''ratio_autonomie_financiere'', min_norm 20 40),
     (''ratio_endettement'', max_norm 70 50),
     (''ratio_couverture_dettes'', min_norm 3 5),
     (''roe'', min_norm 10 20),
     (''roa'', min_norm 5 10),
     (''marge_nette'', min_norm 3 8),
     (''marge_brute'', min_norm 15 30),
     (''rotation_actif'', min_norm 0.8 1.5),
     (''rotation_stocks'', min_norm 4 8),
     (''delai_recouvrement'', max_norm 60 30),
     (''ratio_capitaux_permanents'', min_norm 1.0 1.2),
     (''ratio_financement_stable'', min_norm 1.0 1.3)]"

definition SECTORAL_NORMS :: "(string \<times> (string \<times> norm_entry) list) list" where
  "SECTORAL_NORMS =
    [(''industrie'',
       [(''ratio_liquidite_generale'', min_norm 1.2 1.8),
        (''ratio_autonomie_financiere'', min_norm 25 45),
        (''roe'', min_norm 8 15),
        (''rotation_actif'', min_norm 0.8 1.2)]),
     (''commerce'',
       [(''ratio_liquidite_generale'', min_norm 1.0 1.5),
        (''ratio_autonomie_financiere'', min_norm 20 35),
        (''roe'', min_norm 12 20),
        (''rotation_actif'', min_norm 1.2 2.0)]),
     (''services'',
       [(''ratio_liquidite_generale'', min_norm 1.5 2.5),
        (''ratio_autonomie_financiere'', min_norm 30 60),
        (''roe'', min_norm 15 25),
        (''rotation_actif'', min_norm 1.0 1.8)]),
     (''agriculture'',
       [(''ratio_liquidite_generale'', min_norm 1.3 2.0),
        (''ratio_autonomie_financiere'', min_norm 35 55),
        (''roe'', min_norm 10 18),
        (''rotation_actif'', min_norm 0.6 1.0)])]"

text \<open>
  The object spread \<open>{ ...a, ...b }\<close>: the entries of \<open>a\<close>, each key of \<open>b\<close>
  overwriting in place or appended.
\<close>

definition spread :: "(string \<times> 'a) list \<Rightarrow> (string \<times> 'a) list \<Rightarrow> (string \<times> 'a) list" where
  "spread a b = fold (\<lambda>(k, v). AList.update k v) b a"

definition effective_norms :: "string \<Rightarrow> (string \<times> norm_entry) list" where
  "effective_norms sector =
     (if sector \<noteq> ''general'' then
        (case map_of SECTORAL_NORMS sector of
           Some s \<Rightarrow> spread BCEAO_NORMS s
         | None \<Rightarrow> BCEAO_NORMS)
      else BCEAO_NORMS)"

definition priorityOrder :: "status \<Rightarrow> nat" where
  "priorityOrder s =
     (case s of Critical \<Rightarrow> 0 | Poor \<Rightarrow> 1 | Acceptable \<Rightarrow> 2 | Good \<Rightarrow> 3 | Excellent \<Rightarrow> 4)"

text \<open>
  The names every object inherits from \<open>Object.prototype\<close>. Read on the norm table
  they give a function or an object, which is truthy and has none of \<open>min\<close>,
  \<open>max\<close>, \<open>optimal\<close>; read on the sector table they give an object whose spread
  adds nothing.
\<close>

definition inherited_names :: "string list" where
  "inherited_names =
     [''constructor'', ''hasOwnProperty'', ''isPrototypeOf'', ''propertyIsEnumerable'',
      ''toLocaleString'', ''toString'', ''valueOf'', ''__proto__'', ''__defineGetter__'',
      ''__defineSetter__'', ''__lookupGetter__'', ''__lookupSetter__'']"

definition no_bounds :: norm_entry where
  "no_bounds = \<lparr>nmin = None, nmax = None, optimal = None\<rparr>"

text \<open>\<open>norms[ratioName]\<close>, when it is truthy.\<close>

definition norm_of :: "(string \<times> norm_entry) list \<Rightarrow> string \<Rightarrow> norm_entry option" where
  "norm_of norms name =
     (case map_of norms name of
        Some n \<Rightarrow> Some n
      | None \<Rightarrow> if name \<in> set inherited_names then Some no_bounds else None)"

text \<open>
  FinancialRatios is an object from ratio names to numbers, kept as the list of its
  entries in insertion order. \<open>checkBceaoCompliance\<close> evaluates every ratio that has
  a norm and sorts the results (a stable sort) by the priority of their status.
\<close>

type_synonym financial_ratios = "(string \<times> jsnum) list"

definition check_ratio :: "(string \<times> norm_entry) list \<Rightarrow> string \<times> jsnum \<Rightarrow> compliance list" where
  "check_ratio norms entry =
     (case entry of (name, v) \<Rightarrow>
        (case norm_of norms name of
           Some n \<Rightarrow> [evaluateCompliance name v n]
         | None \<Rightarrow> []))"

definition checkBceaoCompliance :: "financial_ratios \<Rightarrow> string \<Rightarrow> compliance list" where
  "checkBceaoCompliance ratios sector =
     (let norms = effective_norms sector;
          compl = concat (map (check_ratio norms) ratios)
      in sort_key (\<lambda>c. priorityOrder (status c)) compl)"

section \<open>Financial data and the ratio engine (FinancialCalculator)\<close>

text \<open>
  FinancialData is an object from field names to values, each a number or a string
  (\<open>[key: string]: number | string\<close>), kept as the list of its entries in insertion
  order: \<open>map_of d k\<close> reads \<open>d[k]\<close> (\<open>None\<close> for undefined) and
  \<open>AList.update k v d\<close> is \<open>d[k] = v\<close>.
\<close>

datatype fval = FNum jsnum | FStr jsstring

type_synonym financial_data = "(string \<times> fval) list"

text \<open>ToBoolean on a value: a string is truthy unless it is empty.\<close>

fun fval_truthy :: "fval \<Rightarrow> bool" where
  "fval_truthy (FNum n) = truthy n"
| "fval_truthy (FStr s) = (s \<noteq> [])"

text \<open>\<open>Number(v)\<close>.\<close>

fun to_number :: "fval \<Rightarrow> jsnum" where
  "to_number (FNum n) = n"
| "to_number (FStr s) = string_to_number s"

text \<open>The condition \<open>d[k]\<close> of an \<open>if\<close>: the field is there and truthy.\<close>

definition present :: "financial_data \<Rightarrow> string \<Rightarrow> bool" where
  "present d k = (case map_of d k of None \<Rightarrow> False | Some v \<Rightarrow> fval_truthy v)"

text \<open>\<open>Number(d[k])\<close>; \<open>Number(undefined)\<close> is NaN.\<close>

definition num :: "financial_data \<Rightarrow> string \<Rightarrow> jsnum" where
  "num d k = (case map_of d k of None \<Rightarrow> NaN | Some v \<Rightarrow> to_number v)"

text \<open>The same two readings on a FinancialRatios, whose values are numbers.\<close>

definition has_ratio :: "financial_ratios \<Rightarrow> string \<Rightarrow> bool" where
  "has_ratio r k = (case map_of r k of None \<Rightarrow> False | Some v \<Rightarrow> truthy v)"

definition ratio :: "financial_ratios \<Rightarrow> string \<Rightarrow> jsnum" where
  "ratio r k = (case map_of r k of None \<Rightarrow> NaN | Some v \<Rightarrow> v)"

definition set_if :: "bool \<Rightarrow> string \<Rightarrow> 'a \<Rightarrow> (string \<times> 'a) list \<Rightarrow> (string \<times> 'a) list" where
  "set_if c k v r = (if c then AList.update k v r else r)"

definition pct :: "jsnum \<Rightarrow> jsnum \<Rightarrow> jsnum" where
  "pct a b = js_mul (js_div a b) (Fin 100)"

definition calculateRatios :: "financial_data \<Rightarrow> financial_ratios" where
  "calculateRatios d =
    (let r = [];
         r = set_if (present d ''total_actif_circulant'' \<and> present d ''tresorerie_actif''
                     \<and> present d ''total_dettes'')
               ''ratio_liquidite_generale''
               (js_div (js_add (num d ''total_actif_circulant'') (num d ''tresorerie_actif''))
                  (num d ''total_dettes'')) r;
         r = set_if (present d ''tresorerie_actif'' \<and> present d ''total_dettes'')
               ''ratio_liquidite_immediate''
               (js_div (num d ''tresorerie_actif'') (num d ''total_dettes'')) r;
         r = set_if (present d ''capitaux_propres'' \<and> present d ''total_actif'')
               ''ratio_autonomie_financiere''
               (pct (num d ''capitaux_propres'') (num d ''total_actif'')) r;
         r = set_if (present d ''total_dettes'' \<and> present d ''total_actif'')
               ''ratio_endettement''
               (pct (num d ''total_dettes'') (num d ''total_actif'')) r;
         r = set_if (present d ''dettes_financieres'' \<and> present d ''excedent_brut_exploitation'')
               ''ratio_couverture_dettes''
               (js_div (num d ''excedent_brut_exploitation'') (num d ''dettes_financieres'')) r;
         r = set_if (present d ''resultat_net'' \<and> present d ''capitaux_propres'')
               ''roe''
               (pct (num d ''resultat_net'') (num d ''capitaux_propres'')) r;
         r = set_if (present d ''resultat_net'' \<and> present d ''total_actif'')
               ''roa''
               (pct (num d ''resultat_net'') (num d ''total_actif'')) r;
         r = set_if (present d ''resultat_net'' \<and> present d ''chiffre_affaires'')
               ''marge_nette''
               (pct (num d ''resultat_net'') (num d ''chiffre_affaires'')) r;
         r = set_if (present d ''marge_commerciale'' \<and> present d ''chiffre_affaires'')
               ''marge_brute''
               (pct (num d ''marge_commerciale'') (num d ''chiffre_affaires'')) r;
         r = set_if (present d ''chiffre_affaires'' \<and> present d ''total_actif'')
               ''rotation_actif''
               (js_div (num d ''chiffre_affaires'') (num d ''total_actif'')) r;
         r = set_if (present d ''chiffre_affaires'' \<and> present d ''total_actif_circulant'')
               ''rotation_stocks''
               (js_div (num d ''chiffre_affaires'') (num d ''total_actif_circulant'')) r;
         r = set_if (present d ''total_actif_circulant'' \<and> present d ''total_dettes'')
               ''working_capital''
               (js_sub (num d ''total_actif_circulant'') (num d ''total_dettes'')) r;
         r = set_if (present d ''capitaux_propres'' \<and> present d ''total_actif_immobilise'')
               ''ratio_financement_stable''
               (js_div (num d ''capitaux_propres'') (num d ''total_actif_immobilise'')) r;
         r = set_if (present d ''excedent_brut_exploitation'' \<and> present d ''chiffre_affaires'')
               ''marge_ebe''
               (pct (num d ''excedent_brut_exploitation'') (num d ''chiffre_affaires'')) r;
         r = set_if (present d ''valeur_ajoutee'' \<and> present d ''chiffre_affaires'')
               ''taux_valeur_ajoutee''
               (pct (num d ''valeur_ajoutee'') (num d ''chiffre_affaires'')) r
     in r)"

text \<open>The values are all finite numbers: the data-model invariant of FinancialData.\<close>

fun finite_value :: "fval \<Rightarrow> bool" where
  "finite_value (FNum n) = is_finite n"
| "finite_value (FStr s) = False"

definition finite_data :: "financial_data \<Rightarrow> bool" where
  "finite_data d = list_all (\<lambda>(k, v). finite_value v) d"

text \<open>
  A magnitude far inside the range of doubles: zero, or between \<open>2^-300\<close> and
  \<open>2^300\<close>.
\<close>

definition safe_bound :: rat where
  "safe_bound = 2 ^ 300"

definition moderate :: "rat \<Rightarrow> bool" where
  "moderate r = (r = 0 \<or> (1 / safe_bound \<le> \<bar>r\<bar> \<and> \<bar>r\<bar> \<le> safe_bound))"

fun moderate_value :: "fval \<Rightarrow> bool" where
  "moderate_value (FNum (Fin r)) = moderate r"
| "moderate_value v = False"

definition moderate_data :: "financial_data \<Rightarrow> bool" where
  "moderate_data d = list_all (\<lambda>(k, v). moderate_value v) d"

section \<open>Scores, insights and the analysis (FinancialCalculator)\<close>

text \<open>
  \<open>scoreRatio\<close>: the points of one ratio against its norm, out of \<open>maxPoints\<close>.
\<close>

definition scoreRatio :: "jsnum \<Rightarrow> norm_entry \<Rightarrow> jsnum \<Rightarrow> bool \<Rightarrow> jsnum" where
  "scoreRatio v n maxPoints inverted =
     (if inverted then
        (case nmax n of
           Some x \<Rightarrow>
             if js_le v (opt_or (optimal n) (js_mul x (Fin 0.7))) then maxPoints
             else if js_le v x then js_mul maxPoints (Fin 0.7)
             else if js_le v (js_mul x (Fin 1.3)) then js_mul maxPoints (Fin 0.4)
             else Fin 0
         | None \<Rightarrow> js_mul maxPoints (Fin 0.5))
      else
        (case nmin n of
           Some m \<Rightarrow>
             if js_ge v (opt_or (optimal n) (js_mul m (Fin 1.5))) then maxPoints
             else if js_ge v m then js_mul maxPoints (Fin 0.7)
             else if js_ge v (js_mul m (Fin 0.7)) then js_mul maxPoints (Fin 0.4)
             else Fin 0
         | None \<Rightarrow> js_mul maxPoints (Fin 0.5)))"

text \<open>\<open>Math.round\<close>: the nearest integer, a half going up.\<close>

fun js_round :: "jsnum \<Rightarrow> jsnum" where
  "js_round (Fin r) = Fin (of_int \<lfloor>r + 1 / 2\<rfloor>)"
| "js_round a = a"

datatype risk_level = RiskLow | RiskMedium | RiskHigh | RiskCritical

record analysis_score =
  overall :: jsnum
  profitability :: jsnum
  liquidity :: jsnum
  leverage :: jsnum
  efficiency :: jsnum
  trend :: jsnum
  risk_level :: risk_level

text \<open>
  One pool of \<open>calculateScore\<close>: the points of every listed ratio that is defined and
  has a norm, added up from 0.
\<close>

definition pool_points :: "financial_ratios \<Rightarrow> (string \<times> norm_entry) list \<Rightarrow> jsnum
    \<Rightarrow> (string \<times> bool) list \<Rightarrow> jsnum" where
  "pool_points ratios norms maxPoints ks =
     fold (\<lambda>(k, inverted) acc.
        case (map_of ratios k, norm_of norms k) of
          (Some v, Some n) \<Rightarrow> js_add acc (scoreRatio v n maxPoints inverted)
        | _ \<Rightarrow> acc) ks (Fin 0)"

definition scaled :: "jsnum \<Rightarrow> rat \<Rightarrow> jsnum" where
  "scaled points pool = js_round (js_mul (js_div points (Fin pool)) (Fin 100))"

definition calculateScore :: "financial_ratios \<Rightarrow> string \<Rightarrow> analysis_score" where
  "calculateScore ratios sector =
     (let norms = effective_norms sector;
          liquidityScore = pool_points ratios norms (Fin 20)
            [(''ratio_liquidite_generale'', False), (''ratio_liquidite_immediate'', False)];
          leverageScore = pool_points ratios norms (Fin 20)
            [(''ratio_autonomie_financiere'', False), (''ratio_endettement'', True)];
          profitabilityScore = pool_points ratios norms (Fin 10)
            [(''roe'', False), (''roa'', False), (''marge_nette'', False)];
          efficiencyScore = pool_points ratios norms (Fin 15) [(''rotation_actif'', False)];
          trendScore = Fin 12;
          totalScore = js_add (js_add (js_add (js_add liquidityScore leverageScore)
                         profitabilityScore) efficiencyScore) trendScore;
          ov = scaled totalScore 140
      in \<lparr>overall = ov,
          profitability = scaled profitabilityScore 30,
          liquidity = scaled liquidityScore 40,
          leverage = scaled leverageScore 40,
          efficiency = scaled efficiencyScore 15,
          trend = scaled trendScore 15,
          risk_level =
            (if js_ge ov (Fin 80) then RiskLow
             else if js_ge ov (Fin 60) then RiskMedium
             else if js_ge ov (Fin 40) then RiskHigh
             else RiskCritical)\<rparr>)"

text \<open>
  An insight: its category, polarity and impact, and the number its description quotes
  (the change of the ROE, or the ratio). Titles and texts are fixed per branch.
\<close>

datatype category = Profitability | Liquidity | Leverage | Efficiency | Trend

datatype insight_type = Positive | Negative | Neutral | Warning

datatype impact = High | Medium | Low

record analysis_insight =
  category :: category
  itype :: insight_type
  impact :: impact
  quoted :: jsnum

text \<open>
  The errors the analysis can end with: a TypeError for reading the named property of
  \<open>undefined\<close>, and the error the code throws itself, with its message.
\<close>

datatype error = TypeError string | Error string

text \<open>
  A year of MultiyearData: \<open>{ year, data }\<close> (the optional \<open>ratios\<close> are filled in by
  the pages, after the functions modelled here). MultiyearData is the list of the
  entries of the object, in insertion order.
\<close>

record year_data =
  year :: int
  data :: financial_data

type_synonym multiyear_data = "(string \<times> year_data) list"

definition js_abs :: "jsnum \<Rightarrow> jsnum" where
  "js_abs a = (case a of Fin r \<Rightarrow> Fin \<bar>r\<bar> | NInf \<Rightarrow> PInf | _ \<Rightarrow> a)"

text \<open>
  \<open>generateInsights\<close>. The year keys are sorted as strings (\<open>Object.keys(...).sort()\<close>);
  the last one is taken as the latest year and the one before as the previous year.
  Reading a ratio of a year that \<open>allRatios\<close> lacks is a TypeError.
\<close>

definition roe_insights :: "financial_ratios \<Rightarrow> financial_ratios \<Rightarrow> analysis_insight list" where
  "roe_insights latestRatios previousRatios =
     (if has_ratio previousRatios ''roe'' then
        (let roeChange = js_sub (ratio latestRatios ''roe'') (ratio previousRatios ''roe'')
         in if js_gt roeChange (Fin 2) then
              [\<lparr>category = Profitability, itype = Positive, impact = High, quoted = roeChange\<rparr>]
            else if js_lt roeChange (Fin (- 2)) then
              [\<lparr>category = Profitability, itype = Negative, impact = High,
                quoted = js_abs roeChange\<rparr>]
            else [])
      else [])"

definition liquidity_insights :: "financial_ratios \<Rightarrow> analysis_insight list" where
  "liquidity_insights latestRatios =
     (if has_ratio latestRatios ''ratio_liquidite_generale'' then
        (let l = ratio latestRatios ''ratio_liquidite_generale''
         in if js_lt l (Fin 1.2) then
              [\<lparr>category = Liquidity, itype = Warning, impact = High, quoted = l\<rparr>]
            else if js_gt l (Fin 2.5) then
              [\<lparr>category = Liquidity, itype = Neutral, impact = Medium, quoted = l\<rparr>]
            else [])
      else [])"

definition leverage_insights :: "financial_ratios \<Rightarrow> analysis_insight list" where
  "leverage_insights latestRatios =
     (if has_ratio latestRatios ''ratio_autonomie_financiere'' then
        (let a = ratio latestRatios ''ratio_autonomie_financiere''
         in if js_lt a (Fin 20) then
              [\<lparr>category = Leverage, itype = Warning, impact = High, quoted = a\<rparr>]
            else [])
      else [])"

definition generateInsights :: "multiyear_data \<Rightarrow> (string \<times> financial_ratios) list \<Rightarrow> string
    \<Rightarrow> error + analysis_insight list" where
  "generateInsights multiyearData allRatios sector =
     (let years = sort (map fst multiyearData)
      in if length years < 2 then Inr []
         else
           (let latestKey = years ! (length years - 1);
                previousKey = years ! (length years - 2)
            in case map_of allRatios latestKey of
                 None \<Rightarrow> Inl (TypeError ''roe'')
               | Some latestRatios \<Rightarrow>
                   (case (if has_ratio latestRatios ''roe'' then
                            (case map_of allRatios previousKey of
                               None \<Rightarrow> Inl (TypeError ''roe'')
                             | Some previousRatios \<Rightarrow>
                                 Inr (roe_insights latestRatios previousRatios))
                          else Inr []) of
                      Inl e \<Rightarrow> Inl e
                    | Inr profit \<Rightarrow>
                        Inr (profit @ liquidity_insights latestRatios
                               @ leverage_insights latestRatios))))"

text \<open>The recommendations of \<open>generateRecommendations\<close>, named by their subject.\<close>

datatype advice =
    ImproveLiquidity | StrengthenEquity | OptimiseRoe | ImproveAssetUse | FinancialDashboard

definition generateRecommendations :: "financial_ratios \<Rightarrow> analysis_insight list \<Rightarrow> string
    \<Rightarrow> advice list" where
  "generateRecommendations ratios insights sector =
     (if has_ratio ratios ''ratio_liquidite_generale''
         \<and> js_lt (ratio ratios ''ratio_liquidite_generale'') (Fin 1.2)
      then [ImproveLiquidity] else [])
     @ (if has_ratio ratios ''ratio_autonomie_financiere''
         \<and> js_lt (ratio ratios ''ratio_autonomie_financiere'') (Fin 20)
      then [StrengthenEquity] else [])
     @ (if has_ratio ratios ''roe'' \<and> js_lt (ratio ratios ''roe'') (Fin 10)
      then [OptimiseRoe] else [])
     @ (if has_ratio ratios ''rotation_actif'' \<and> js_lt (ratio ratios ''rotation_actif'') (Fin 0.8)
      then [ImproveAssetUse] else [])
     @ [FinancialDashboard]"

text \<open>
  \<open>getLatestYearKey\<close>: the entries sorted by year, latest first (a stable sort), and the
  key of the first one. On an empty object \<open>years[0]\<close> is \<open>undefined\<close> and reading
  its \<open>key\<close> is a TypeError.
\<close>

definition getLatestYearKey :: "multiyear_data \<Rightarrow> error + string" where
  "getLatestYearKey multiyearData =
     (let years = map (\<lambda>(k, yd). (k, year yd)) multiyearData;
          sorted_years = sort_key (\<lambda>(k, y). - y) years
      in case sorted_years of
           [] \<Rightarrow> Inl (TypeError ''key'')
         | (k, y) # rest \<Rightarrow> Inr k)"

text \<open>One step of \<open>allRatios[key] = this.calculateRatios(yearData.data)\<close>.\<close>

fun add_ratios :: "string \<times> year_data \<Rightarrow> (string \<times> financial_ratios) list
    \<Rightarrow> (string \<times> financial_ratios) list" where
  "add_ratios (k, yearData) allRatios = AList.update k (calculateRatios (data yearData)) allRatios"

record calculation_result =
  res_ratios :: financial_ratios
  res_score :: analysis_score
  res_insights :: "analysis_insight list"
  res_recommendations :: "advice list"

definition calculateAnalysis :: "multiyear_data \<Rightarrow> string \<Rightarrow> error + calculation_result" where
  "calculateAnalysis multiyearData sector =
     (case getLatestYearKey multiyearData of
        Inl e \<Rightarrow> Inl e
      | Inr latestYearKey \<Rightarrow>
          (case map_of multiyearData latestYearKey of
             None \<Rightarrow> Inl (Error ''No financial data available for analysis'')
           | Some latestData \<Rightarrow>
               (let allRatios = fold add_ratios multiyearData []
                in case map_of allRatios latestYearKey of
                     None \<Rightarrow> Inl (TypeError ''ratio_liquidite_generale'')
                   | Some latestRatios \<Rightarrow>
                       (case generateInsights multiyearData allRatios sector of
                          Inl e \<Rightarrow> Inl e
                        | Inr ins \<Rightarrow>
                            Inr \<lparr>res_ratios = latestRatios,
                                 res_score = calculateScore latestRatios sector,
                                 res_insights = ins,
                                 res_recommendations =
                                   generateRecommendations latestRatios ins sector\<rparr>))))"

section \<open>The numeric parser (ExcelProcessor)\<close>

text \<open>The currency symbols the code removes: euro, dollar, pound, yen, rupee, rouble.\<close>

definition is_currency :: "int \<Rightarrow> bool" where
  "is_currency c = (c = 8364 \<or> c = 36 \<or> c = 163 \<or> c = 165 \<or> c = 8377 \<or> c = 8381)"

text \<open>
  The four replacements: currency symbols out, white space out, every comma to a dot,
  then everything but digits, dots (46) and minus signs (45) out.
\<close>

definition cleaned :: "jsstring \<Rightarrow> jsstring" where
  "cleaned s =
     filter (\<lambda>c. is_digit c \<or> c = 46 \<or> c = 45)
       (map (\<lambda>c. if c = 44 then 46 else c)
         (filter (\<lambda>c. \<not> is_space c)
           (filter (\<lambda>c. \<not> is_currency c) s)))"

text \<open>The values a cell or a variable of type \<open>any\<close> can hold.\<close>

datatype jsval = JUndefined | JNull | JNum jsnum | JStr jsstring | JBool bool | JObject

definition parseNumericValue :: "jsval \<Rightarrow> jsnum" where
  "parseNumericValue v =
     (case v of
        JNull \<Rightarrow> Fin 0
      | JUndefined \<Rightarrow> Fin 0
      | JNum n \<Rightarrow> n
      | JStr s \<Rightarrow>
          if s = [] then Fin 0
          else (let parsed = parseFloat (cleaned s) in if parsed = NaN then Fin 0 else parsed)
      | _ \<Rightarrow> Fin 0)"

section \<open>The cell maps and the extraction (ExcelProcessor)\<close>

text \<open>
  A cell map gives, for a field, the address of its cell for the year N and for the year
  N-1 (the labels are left out). The four tables follow the source entry by entry.
\<close>

record cell_mapping =
  cell_n :: string
  cell_n1 :: string

definition cells :: "string \<Rightarrow> string \<Rightarrow> string \<Rightarrow> string \<times> cell_mapping" where
  "cells k a b = (k, \<lparr>cell_n = a, cell_n1 = b\<rparr>)"

definition BILAN_ACTIF_MAPPINGS :: "(string \<times> cell_mapping) list" where
  "BILAN_ACTIF_MAPPINGS =
    [cells ''immobilisations_incorporelles'' ''E5'' ''F5'',
     cells ''frais_developpement'' ''E6'' ''F6'',
     cells ''brevets_licences'' ''E7'' ''F7'',
     cells ''fonds_commercial'' ''E8'' ''F8'',
     cells ''autres_immob_incorporelles'' ''E9'' ''F9'',
     cells ''immobilisations_corporelles'' ''E10'' ''F10'',
     cells ''terrains'' ''E11'' ''F11'',
     cells ''batiments'' ''E12'' ''F12'',
     cells ''agencements'' ''E13'' ''F13'',
     cells ''materiel_mobilier'' ''E14'' ''F14'',
     cells ''materiel_transport'' ''E15'' ''F15'',
     cells ''avances_immobilisations'' ''E16'' ''F16'',
     cells ''immobilisations_financieres'' ''E18'' ''F18'',
     cells ''titres_participation'' ''E19'' ''F19'',
     cells ''autres_immob_financieres'' ''E20'' ''F20'',
     cells ''total_actif_immobilise'' ''E21'' ''F21'',
     cells ''actif_circulant_hao'' ''E22'' ''F22'',
     cells ''stocks'' ''E23'' ''F23'',
     cells ''creances_clients'' ''E24'' ''F24'',
     cells ''fournisseurs_avances'' ''E25'' ''F25'',
     cells ''clients'' ''E26'' ''F26'',
     cells ''autres_creances'' ''E27'' ''F27'',
     cells ''total_actif_circulant'' ''E28'' ''F28'',
     cells ''titres_placement'' ''E30'' ''F30'',
     cells ''valeurs_encaisser'' ''E31'' ''F31'',
     cells ''banques_caisses'' ''E32'' ''F32'',
     cells ''tresorerie_actif'' ''E33'' ''F33'',
     cells ''ecart_conversion_actif'' ''E34'' ''F34'',
     cells ''total_actif'' ''E35'' ''F35'']"

definition BILAN_PASSIF_MAPPINGS :: "(string \<times> cell_mapping) list" where
  "BILAN_PASSIF_MAPPINGS =
    [cells ''capital_social'' ''I5'' ''J5'',
     cells ''actionnaires_capital'' ''I6'' ''J6'',
     cells ''primes_capital'' ''I7'' ''J7'',
     cells ''ecarts_reevaluation'' ''I8'' ''J8'',
     cells ''reserves_indisponibles'' ''I9'' ''J9'',
     cells ''reserves_libres'' ''I10'' ''J10'',
     cells ''reserves_reportees'' ''I11'' ''J11'',
     cells ''resultat_exercice'' ''I12'' ''J12'',
     cells ''subventions_investissement'' ''I13'' ''J13'',
     cells ''provisions_reglementees'' ''I14'' ''J14'',
     cells ''capitaux_propres'' ''I15'' ''J15'',
     cells ''emprunts_dettes_financieres'' ''I17'' ''J17'',
     cells ''dettes_location'' ''I18'' ''J18'',
     cells ''provisions_financieres'' ''I19'' ''J19'',
     cells ''dettes_financieres'' ''I20'' ''J20'',
     cells ''ressources_stables'' ''I21'' ''J21'',
     cells ''dettes_circulantes_hao'' ''I22'' ''J22'',
     cells ''clients_avances_recues'' ''I23'' ''J23'',
     cells ''dettes_fournisseurs'' ''I24'' ''J24'',
     cells ''dettes_sociales_fiscales'' ''I25'' ''J25'',
     cells ''autres_dettes'' ''I26'' ''J26'',
     cells ''provisions_court_terme'' ''I27'' ''J27'',
     cells ''total_dettes'' ''I28'' ''J28'',
     cells ''banques_credits_escompte'' ''I30'' ''J30'',
     cells ''banques_credits_tresorerie'' ''I31'' ''J31'',
     cells ''tresorerie_passif'' ''I33'' ''J33'',
     cells ''ecart_conversion_passif'' ''I34'' ''J34'',
     cells ''total_passif'' ''I35'' ''J35'']"

definition CR_MAPPINGS :: "(string \<times> cell_mapping) list" where
  "CR_MAPPINGS =
    [cells ''ventes_marchandises'' ''E5'' ''F5'',
     cells ''achats_marchandises'' ''E6'' ''F6'',
     cells ''variation_stocks_marchandises'' ''E7'' ''F7'',
     cells ''marge_commerciale'' ''E8'' ''F8'',
     cells ''ventes_produits_fabriques'' ''E9'' ''F9'',
     cells ''travaux_services'' ''E10'' ''F10'',
     cells ''produits_accessoires'' ''E11'' ''F11'',
     cells ''chiffre_affaires'' ''E12'' ''F12'',
     cells ''production_stockee'' ''E13'' ''F13'',
     cells ''production_immobilisee'' ''E14'' ''F14'',
     cells ''subvention_exploitation'' ''E15'' ''F15'',
     cells ''autres_produits'' ''E16'' ''F16'',
     cells ''transferts_charges'' ''E17'' ''F17'',
     cells ''achats_matieres_premieres'' ''E18'' ''F18'',
     cells ''variation_stocks_mp'' ''E19'' ''F19'',
     cells ''autres_achats'' ''E20'' ''F20'',
     cells ''variation_autres_stocks'' ''E21'' ''F21'',
     cells ''transports'' ''E22'' ''F22'',
     cells ''services_exterieurs'' ''E23'' ''F23'',
     cells ''impots_taxes'' ''E24'' ''F24'',
     cells ''autres_charges'' ''E25'' ''F25'',
     cells ''valeur_ajoutee'' ''E26'' ''F26'',
     cells ''charges_personnel'' ''E27'' ''F27'',
     cells ''excedent_brut_exploitation'' ''E28'' ''F28'',
     cells ''reprises_amortissements'' ''E29'' ''F29'',
     cells ''dotations_amortissements'' ''E30'' ''F30'',
     cells ''resultat_exploitation'' ''E31'' ''F31'',
     cells ''revenus_financiers'' ''E32'' ''F32'',
     cells ''reprises_provisions_financieres'' ''E33'' ''F33'',
     cells ''transferts_charges_financieres'' ''E34'' ''F34'',
     cells ''frais_financiers'' ''E35'' ''F35'',
     cells ''dotations_provisions_financieres'' ''E36'' ''F36'',
     cells ''resultat_financier'' ''E37'' ''F37'',
     cells ''resultat_courant'' ''E38'' ''F38'',
     cells ''produits_cessions_immobilisations'' ''E39'' ''F39'',
     cells ''autres_produits_hao'' ''E40'' ''F40'',
     cells ''valeurs_comptables_cessions'' ''E41'' ''F41'',
     cells ''autres_charges_hao'' ''E42'' ''F42'',
     cells ''resultat_hao'' ''E43'' ''F43'',
     cells ''participation_travailleurs'' ''E44'' ''F44'',
     cells ''impots_resultat'' ''E45'' ''F45'',
     cells ''resultat_net'' ''E46'' ''F46'']"

definition TFT_MAPPINGS :: "(string \<times> cell_mapping) list" where
  "TFT_MAPPINGS =
    [cells ''tresorerie_debut_periode'' ''E3'' ''F3'',
     cells ''flux_tresorerie_activites_operationnelles_header'' ''E4'' ''F4'',
     cells ''capacite_autofinancement'' ''E5'' ''F5'',
     cells ''variation_actif_circulant_hao'' ''E6'' ''F6'',
     cells ''variation_stocks'' ''E7'' ''F7'',
     cells ''variation_creances'' ''E8'' ''F8'',
     cells ''variation_passif_circulant'' ''E9'' ''F9'',
     cells ''variation_bfg'' ''E10'' ''F10'',
     cells ''flux_tresorerie_activites_operationnelles'' ''E11'' ''F11'',
     cells ''flux_investissements_header'' ''E12'' ''F12'',
     cells ''decaissements_immob_incorp'' ''E13'' ''F13'',
     cells ''decaissements_immob_corp'' ''E14'' ''F14'',
     cells ''decaissements_immob_fin'' ''E15'' ''F15'',
     cells ''encaissements_cessions_ic'' ''E16'' ''F16'',
     cells ''encaissements_cessions_fin'' ''E17'' ''F17'',
     cells ''flux_tresorerie_activites_investissement'' ''E18'' ''F18'',
     cells ''flux_capitaux_propres_header'' ''E19'' ''F19'',
     cells ''augmentation_capital'' ''E20'' ''F20'',
     cells ''subventions_investissement'' ''E21'' ''F21'',
     cells ''prelevements_capital'' ''E22'' ''F22'',
     cells ''distributions'' ''E23'' ''F23'',
     cells ''flux_capitaux_propres_total'' ''E24'' ''F24'',
     cells ''flux_capitaux_etrangers_header'' ''E25'' ''F25'',
     cells ''emprunts'' ''E26'' ''F26'',
     cells ''autres_dettes_financieres'' ''E27'' ''F27'',
     cells ''remboursements'' ''E28'' ''F28'',
     cells ''flux_capitaux_etrangers_total'' ''E29'' ''F29'',
     cells ''flux_tresorerie_activites_financement'' ''E30'' ''F30'',
     cells ''variation_tresorerie'' ''E31'' ''F31'',
     cells ''tresorerie_fin_periode'' ''E32'' ''F32'',
     cells ''controle_tresorerie'' ''E33'' ''F33'']"

text \<open>
  A worksheet: the value \<open>v\<close> of each cell it has, by address, and its rows as
  \<open>XLSX.utils.sheet_to_json(sheet, {header: 1, raw: false, defval: ''})\<close> of the
  library returns them, each cell as its formatted text. A workbook: the names of its
  sheets and the sheets by name.
\<close>

record worksheet =
  cell_values :: "(string \<times> jsval) list"
  json_rows :: "jsstring list list"

record workbook =
  SheetNames :: "string list"
  Sheets :: "(string \<times> worksheet) list"

record year_config =
  primaryYear :: int
  startYear :: int
  endYear :: int

text \<open>\<open>getCellValue\<close>; \<open>None\<close> is the \<open>null\<close> it returns.\<close>

definition getCellValue :: "worksheet \<Rightarrow> string \<Rightarrow> jsval option" where
  "getCellValue ws cellAddress =
     (case map_of (cell_values ws) cellAddress of
        None \<Rightarrow> None
      | Some v \<Rightarrow> if v = JUndefined \<or> v = JNull \<or> v = JStr [] then None else Some v)"

definition is_digit_char :: "char \<Rightarrow> bool" where
  "is_digit_char c = is_digit (of_char c)"

text \<open>The first match of \<open>/N-(\d+)/\<close>: the digits after the first \<open>N-\<close> that has one.\<close>

fun match_N_minus :: "string \<Rightarrow> string option" where
  "match_N_minus (a # b # c # r) =
     (if a = CHR ''N'' \<and> b = CHR ''-'' \<and> is_digit_char c
      then Some (takeWhile is_digit_char (c # r))
      else match_N_minus (b # c # r))"
| "match_N_minus r = None"

text \<open>
  \<open>getYearFromKey\<close>; \<open>now\<close> is the year of \<open>new Date()\<close>, used when the reference
  year is 0.
\<close>

definition getYearFromKey :: "int \<Rightarrow> string \<Rightarrow> int \<Rightarrow> int" where
  "getYearFromKey now yearKey referenceYear =
     (let currentYear = (if referenceYear \<noteq> 0 then referenceYear else now)
      in if yearKey = ''N'' then currentYear
         else if yearKey = ''N-1'' then currentYear - 1
         else if yearKey = ''N-2'' then currentYear - 2
         else (case match_N_minus yearKey of
                 Some ds \<Rightarrow> currentYear - digits_val (ascii ds)
               | None \<Rightarrow> currentYear))"

text \<open>The year filter: no configuration, or the year within its range.\<close>

definition in_range :: "year_config option \<Rightarrow> int \<Rightarrow> bool" where
  "in_range yearConfig y =
     (case yearConfig of
        None \<Rightarrow> True
      | Some c \<Rightarrow> startYear c \<le> y \<and> y \<le> endYear c)"

text \<open>
  Storing one parsed cell: the year entry is created empty when it is missing, then
  the field is written into its data.
\<close>

definition set_field :: "string \<Rightarrow> int \<Rightarrow> string \<Rightarrow> jsnum \<Rightarrow> multiyear_data \<Rightarrow> multiyear_data" where
  "set_field yearKey y fieldKey v md =
     (let md1 = (case map_of md yearKey of
                   None \<Rightarrow> AList.update yearKey \<lparr>year = y, data = []\<rparr> md
                 | Some yd \<Rightarrow> md)
      in AList.map_entry yearKey
           (\<lambda>yd. yd\<lparr>data := AList.update fieldKey (FNum v) (data yd)\<rparr>) md1)"

definition extract_cell :: "int \<Rightarrow> worksheet \<Rightarrow> int \<Rightarrow> year_config option \<Rightarrow> string
    \<Rightarrow> string \<Rightarrow> string \<Rightarrow> multiyear_data \<Rightarrow> multiyear_data" where
  "extract_cell now ws referenceYear yearConfig yearKey fieldKey address md =
     (case getCellValue ws address of
        None \<Rightarrow> md
      | Some v \<Rightarrow>
          (let actualYear = getYearFromKey now yearKey referenceYear
           in if in_range yearConfig actualYear
              then set_field yearKey actualYear fieldKey (parseNumericValue v) md
              else md))"

text \<open>One field of a sheet: its cell for N, then its cell for N-1.\<close>

definition extract_field :: "int \<Rightarrow> worksheet \<Rightarrow> int \<Rightarrow> year_config option
    \<Rightarrow> string \<times> cell_mapping \<Rightarrow> multiyear_data \<Rightarrow> multiyear_data" where
  "extract_field now ws referenceYear yearConfig entry md =
     (case entry of (fieldKey, fieldConfig) \<Rightarrow>
        extract_cell now ws referenceYear yearConfig ''N-1'' fieldKey (cell_n1 fieldConfig)
          (extract_cell now ws referenceYear yearConfig ''N'' fieldKey (cell_n fieldConfig) md))"

text \<open>The warnings and failures of the processor, named by what their texts say.\<close>

datatype warning =
    SheetNotFound string
  | EmptyTemplate
  | NoDataForYear int string
  | NoDataForYearKey string
  | NoValidData
  | ProcessingError error

definition sheetsToProcess :: "(string \<times> (string \<times> cell_mapping) list) list" where
  "sheetsToProcess =
     [(''Bilan'', spread BILAN_ACTIF_MAPPINGS BILAN_PASSIF_MAPPINGS),
      (''CR'', CR_MAPPINGS),
      (''TFT'', TFT_MAPPINGS)]"

definition extract_sheet :: "int \<Rightarrow> workbook \<Rightarrow> int \<Rightarrow> year_config option
    \<Rightarrow> string \<times> (string \<times> cell_mapping) list
    \<Rightarrow> multiyear_data \<times> warning list \<Rightarrow> multiyear_data \<times> warning list" where
  "extract_sheet now wb referenceYear yearConfig sheet acc =
     (case sheet of (name, mappings) \<Rightarrow>
        (case acc of (md, warnings) \<Rightarrow>
           (case map_of (Sheets wb) name of
              None \<Rightarrow> (md, warnings @ [SheetNotFound name])
            | Some ws \<Rightarrow>
                (fold (extract_field now ws referenceYear yearConfig) mappings md, warnings))))"

text \<open>
  The derived fields of one year, in the order of the source: the total of the
  operating products, the operating charges, the working capital, the BFR and the
  net result.
\<close>

definition product_components :: "string list" where
  "product_components =
     [''marge_commerciale'', ''chiffre_affaires'', ''production_stockee'',
      ''production_immobilisee'', ''subvention_exploitation'', ''autres_produits'',
      ''transferts_charges'']"

definition total_products :: "financial_data \<Rightarrow> jsnum" where
  "total_products d =
     fold (\<lambda>k total. if present d k then js_add total (num d k) else total)
       product_components (Fin 0)"

definition derive_products :: "financial_data \<Rightarrow> financial_data" where
  "derive_products d =
     (let totalProduitsExploitation = total_products d
      in if js_gt totalProduitsExploitation (Fin 0)
         then AList.update ''total_produits_exploitation'' (FNum totalProduitsExploitation) d
         else if present d ''chiffre_affaires''
         then AList.update ''total_produits_exploitation'' (FNum (num d ''chiffre_affaires'')) d
         else d)"

definition derive_charges :: "financial_data \<Rightarrow> financial_data" where
  "derive_charges d =
     set_if (present d ''total_produits_exploitation''
             \<and> map_of d ''resultat_exploitation'' \<noteq> None)
       ''total_charges_exploitation''
       (FNum (js_sub (num d ''total_produits_exploitation'') (num d ''resultat_exploitation''))) d"

definition derive_working_capital :: "financial_data \<Rightarrow> financial_data" where
  "derive_working_capital d =
     set_if (present d ''total_actif_circulant'' \<and> present d ''total_dettes'')
       ''working_capital''
       (FNum (js_sub (num d ''total_actif_circulant'') (num d ''total_dettes''))) d"

definition derive_bfr :: "financial_data \<Rightarrow> financial_data" where
  "derive_bfr d =
     set_if (\<not> present d ''bfr'' \<and> present d ''total_actif_circulant''
             \<and> present d ''tresorerie_actif'' \<and> present d ''total_dettes''
             \<and> present d ''tresorerie_passif'')
       ''bfr''
       (FNum (js_sub (js_sub (num d ''total_actif_circulant'') (num d ''tresorerie_actif''))
          (js_sub (num d ''total_dettes'') (num d ''tresorerie_passif'')))) d"

text \<open>
  \<open>data.resultat_net = data.resultat_exercice\<close> (the value as it is) when the
  latter is truthy and the former is not.
\<close>

definition derive_resultat_net :: "financial_data \<Rightarrow> financial_data" where
  "derive_resultat_net d =
     (case map_of d ''resultat_exercice'' of
        None \<Rightarrow> d
      | Some v \<Rightarrow> set_if (fval_truthy v \<and> \<not> present d ''resultat_net'') ''resultat_net'' v d)"

definition derive_year :: "financial_data \<Rightarrow> financial_data" where
  "derive_year d =
     derive_resultat_net (derive_bfr (derive_working_capital
       (derive_charges (derive_products d))))"

fun derive_entry :: "string \<times> year_data \<Rightarrow> string \<times> year_data" where
  "derive_entry (yearKey, yearData) = (yearKey, yearData\<lparr>data := derive_year (data yearData)\<rparr>)"

definition calculateDerivedFields :: "multiyear_data \<Rightarrow> multiyear_data" where
  "calculateDerivedFields multiyearData = map derive_entry multiyearData"

text \<open>The decimal text of an integer, as a template string writes it.\<close>

definition digit_of :: "nat \<Rightarrow> char" where
  "digit_of n = char_of (48 + n)"

function decimal :: "nat \<Rightarrow> string" where
  "decimal n = (if 10 \<le> n then decimal (n div 10) @ [digit_of (n mod 10)] else [digit_of n])"
  by pat_completeness auto
termination
  by (relation "measure id") auto

definition string_of_int :: "int \<Rightarrow> string" where
  "string_of_int i = (if 0 \<le> i then decimal (nat i) else CHR ''-'' # decimal (nat (- i)))"

definition significantFields :: "string list" where
  "significantFields = [''chiffre_affaires'', ''total_actif'', ''capitaux_propres'', ''resultat_net'']"

definition hasSignificantData :: "financial_data \<Rightarrow> bool" where
  "hasSignificantData d =
     list_ex (\<lambda>field. present d field \<and> js_gt (js_abs (num d field)) (Fin 0)) significantFields"

fun has_real_entry :: "string \<times> year_data \<Rightarrow> bool" where
  "has_real_entry (yearKey, yearData) = hasSignificantData (data yearData)"

text \<open>A year that is missing, or whose data has no field.\<close>

definition no_data_for :: "multiyear_data \<Rightarrow> string \<Rightarrow> bool" where
  "no_data_for md yearKey =
     (case map_of md yearKey of None \<Rightarrow> True | Some yd \<Rightarrow> data yd = [])"

definition year_warnings :: "multiyear_data \<Rightarrow> int \<Rightarrow> year_config option \<Rightarrow> warning list" where
  "year_warnings md referenceYear yearConfig =
     (case yearConfig of
        Some c \<Rightarrow>
          if startYear c = endYear c then
            (let targetYear = startYear c;
                 yearDiff = referenceYear - targetYear;
                 expectedYearKey = (if yearDiff = 0 then ''N''
                                    else if yearDiff = 1 then ''N-1''
                                    else ''N-'' @ string_of_int yearDiff)
             in if no_data_for md expectedYearKey
                then [NoDataForYear targetYear expectedYearKey] else [])
          else concat (map (\<lambda>yearKey. if no_data_for md yearKey
                                        then [NoDataForYearKey yearKey] else [])
                        [''N-1'', ''N''])
      | None \<Rightarrow> concat (map (\<lambda>yearKey. if no_data_for md yearKey
                                        then [NoDataForYearKey yearKey] else [])
                          [''N-1'', ''N'']))"

definition extractDataFromOhadaTemplate :: "int \<Rightarrow> workbook \<Rightarrow> year_config option
    \<Rightarrow> multiyear_data \<times> warning list" where
  "extractDataFromOhadaTemplate now wb yearConfig =
     (let referenceYear = (case yearConfig of
                             None \<Rightarrow> now
                           | Some c \<Rightarrow> if primaryYear c \<noteq> 0 then primaryYear c else now);
          (extracted, warnings) =
             fold (extract_sheet now wb referenceYear yearConfig) sheetsToProcess ([], []);
          multiyearData = calculateDerivedFields extracted;
          hasRealData = list_ex has_real_entry multiyearData;
          warnings = warnings @ (if \<not> hasRealData then [EmptyTemplate] else [])
      in (multiyearData, warnings @ year_warnings multiyearData referenceYear yearConfig))"

text \<open>The fields that the derivation writes.\<close>

definition derived_keys :: "string set" where
  "derived_keys = {''total_produits_exploitation'', ''total_charges_exploitation'',
     ''working_capital'', ''bfr'', ''resultat_net''}"

section \<open>Processing a file (ExcelProcessor)\<close>

text \<open>The first match of \<open>/20\d{2}/\<close>, read as a number.\<close>

fun find_year :: "jsstring \<Rightarrow> int option" where
  "find_year (a # b # c # d # r) =
     (if a = 50 \<and> b = 48 \<and> is_digit c \<and> is_digit d
      then Some (digits_val [a, b, c, d])
      else find_year (b # c # d # r))"
| "find_year r = None"

definition commonMappings :: "(nat \<times> string) list" where
  "commonMappings =
     [(1, ''total_actif''), (2, ''capitaux_propres''), (3, ''chiffre_affaires''),
      (4, ''resultat_net'')]"

text \<open>
  The fields of a row of the generic layout: the cells 1 to 4 that are there and not
  empty, parsed.
\<close>

definition row_field :: "jsstring list \<Rightarrow> nat \<times> string \<Rightarrow> financial_data \<Rightarrow> financial_data" where
  "row_field row m financialData =
     (case m of (i, field) \<Rightarrow>
        if i < length row \<and> row ! i \<noteq> []
        then AList.update field (FNum (parseNumericValue (JStr (row ! i)))) financialData
        else financialData)"

definition row_data :: "jsstring list \<Rightarrow> financial_data" where
  "row_data row = fold (row_field row) commonMappings []"

definition generic_year_key :: "int \<Rightarrow> string" where
  "generic_year_key yearDiff =
     (if yearDiff = 0 then ''N''
      else if yearDiff = 1 then ''N-1''
      else if yearDiff = 2 then ''N-2''
      else ''N-'' @ string_of_int yearDiff)"

text \<open>
  One row of the generic layout: when its first cell holds a year from 2000 to 2030
  and the row has fields, the year entry is written (over an earlier one of the same
  key).
\<close>

definition process_row :: "int \<Rightarrow> jsstring list \<Rightarrow> multiyear_data \<Rightarrow> multiyear_data" where
  "process_row now row md =
     (case row of
        [] \<Rightarrow> md
      | first # rest \<Rightarrow>
          (let firstCell = js_trim first
           in if firstCell = [] then md
              else
                (case find_year firstCell of
                   None \<Rightarrow> md
                 | Some y \<Rightarrow>
                     if y \<noteq> 0 \<and> 2000 \<le> y \<and> y \<le> 2030 then
                       (let yearKey = generic_year_key (now - y);
                            financialData = row_data row
                        in if financialData \<noteq> []
                           then AList.update yearKey \<lparr>year = y, data = financialData\<rparr> md
                           else md)
                     else md)))"

text \<open>
  The rows of the first sheet, as the library gives them; it gives no row for a sheet
  that is not there.
\<close>

definition first_sheet_rows :: "workbook \<Rightarrow> jsstring list list" where
  "first_sheet_rows wb =
     (case SheetNames wb of
        [] \<Rightarrow> []
      | n # ns \<Rightarrow> (case map_of (Sheets wb) n of None \<Rightarrow> [] | Some ws \<Rightarrow> json_rows ws))"

text \<open>
  The error \<open>processWorksheet\<close> throws when the sheet has fewer than two rows (its
  message asks for a header row and a data row).
\<close>

definition too_few_rows :: error where
  "too_few_rows = Error ''Le fichier Excel doit contenir au moins une ligne''"

definition generic_processing :: "int \<Rightarrow> workbook \<Rightarrow> error + multiyear_data \<times> warning list" where
  "generic_processing now wb =
     (let jsonData = first_sheet_rows wb
      in if length jsonData < 2 then Inl too_few_rows
         else
           (let multiyearData = fold (process_row now) jsonData []
            in Inr (multiyearData, if multiyearData = [] then [NoValidData] else [])))"

definition hasOhadaSheets :: "workbook \<Rightarrow> bool" where
  "hasOhadaSheets wb = list_ex (\<lambda>sheetName. sheetName \<in> set (SheetNames wb)) [''Bilan'', ''CR'', ''TFT'']"

definition processWorksheet :: "int \<Rightarrow> workbook \<Rightarrow> year_config option
    \<Rightarrow> error + multiyear_data \<times> warning list" where
  "processWorksheet now wb yearConfig =
     (if hasOhadaSheets wb then
        (let ohadaResult = extractDataFromOhadaTemplate now wb yearConfig
         in if fst ohadaResult \<noteq> [] then Inr ohadaResult
            else generic_processing now wb)
      else generic_processing now wb)"

text \<open>
  A file: its type and size, and what \<open>XLSX.read\<close> makes of its bytes, a workbook or
  an error. A result: \<open>{ success, data?, error?, warnings? }\<close>.
\<close>

record excel_file =
  ftype :: string
  fsize :: int
  workbook_read :: "error + workbook"

datatype failure =
    UnsupportedType
  | TooLarge
  | NoSheet
  | NoValidFinancialData
  | ProcessingFailed error

record excel_result =
  success :: bool
  rdata :: "multiyear_data option"
  rerror :: "failure option"
  rwarnings :: "warning list option"

definition validTypes :: "string list" where
  "validTypes =
     [''application/vnd.openxmlformats-officedocument.spreadsheetml.sheet'',
      ''application/vnd.ms-excel'']"

definition failed :: "failure \<Rightarrow> warning list option \<Rightarrow> excel_result" where
  "failed e w = \<lparr>success = False, rdata = None, rerror = Some e, rwarnings = w\<rparr>"

text \<open>
  The inner \<open>try\<close> of \<open>processExcelFile\<close>: the data and warnings of
  \<open>processWorksheet\<close>, or no data and the error as a warning.
\<close>

definition process_workbook :: "int \<Rightarrow> workbook \<Rightarrow> year_config option
    \<Rightarrow> multiyear_data \<times> warning list" where
  "process_workbook now wb yearConfig =
     (case processWorksheet now wb yearConfig of
        Inr r \<Rightarrow> r
      | Inl e \<Rightarrow> ([], [ProcessingError e]))"

definition processExcelFile :: "int \<Rightarrow> excel_file \<Rightarrow> year_config option \<Rightarrow> excel_result" where
  "processExcelFile now f yearConfig =
     (if ftype f \<notin> set validTypes then failed UnsupportedType None
      else if fsize f > 10 * 1024 * 1024 then failed TooLarge None
      else
        (case workbook_read f of
           Inl e \<Rightarrow> failed (ProcessingFailed e) None
         | Inr wb \<Rightarrow>
             if SheetNames wb = [] then failed NoSheet None
             else
               (case process_workbook now wb yearConfig of
                  (multiyearData, allWarnings) \<Rightarrow>
                    if multiyearData = [] then failed NoValidFinancialData (Some allWarnings)
                    else \<lparr>success = True, rdata = Some multiyearData, rerror = None,
                           rwarnings = (if allWarnings \<noteq> [] then Some allWarnings
                                        else None)\<rparr>)))"

text \<open>The number of fields of a MultiyearData, over all its years.\<close>

definition field_count :: "multiyear_data \<Rightarrow> nat" where
  "field_count md = sum_list (map (\<lambda>(k, yd). length (data yd)) md)"

text \<open>Every year of a MultiyearData has at least one field.\<close>

definition years_filled :: "multiyear_data \<Rightarrow> bool" where
  "years_filled md = list_all (\<lambda>(k, yd). data yd \<noteq> []) md"

section \<open>The scenarios of the specification\<close>

text \<open>
  Scenario 1: a workbook with \<open>Bilan!E35\<close>, \<open>Bilan!I15\<close>, \<open>CR!E12\<close> and
  \<open>CR!E46\<close> filled in, as text, and the reference year 2024.
\<close>

definition scenario1_workbook :: workbook where
  "scenario1_workbook =
     \<lparr>SheetNames = [''Bilan'', ''CR''],
      Sheets =
        [(''Bilan'', \<lparr>cell_values = [(''E35'', JStr (ascii ''10700000'')),
                                       (''I15'', JStr (ascii ''6000000''))],
                      json_rows = []\<rparr>),
         (''CR'', \<lparr>cell_values = [(''E12'', JStr (ascii ''8000000'')),
                                    (''E46'', JStr (ascii ''1000000''))],
                   json_rows = []\<rparr>)]\<rparr>"

definition scenario1_config :: "year_config option" where
  "scenario1_config = Some \<lparr>primaryYear = 2024, startYear = 2023, endYear = 2024\<rparr>"

definition scenario1_claimed :: financial_data where
  "scenario1_claimed =
     [(''total_actif'', FNum (Fin 10700000)), (''capitaux_propres'', FNum (Fin 6000000)),
      (''chiffre_affaires'', FNum (Fin 8000000)), (''resultat_net'', FNum (Fin 1000000))]"

definition scenario1_data :: financial_data where
  "scenario1_data = scenario1_claimed @ [(''total_produits_exploitation'', FNum (Fin 8000000))]"

text \<open>A file of 20000 bytes of the given type that holds the workbook of scenario 1.\<close>

definition scenario1_file :: "string \<Rightarrow> excel_file" where
  "scenario1_file t = \<lparr>ftype = t, fsize = 20000, workbook_read = Inr scenario1_workbook\<rparr>"

text \<open>
  A workbook whose only sheet is named \<open>Bilan\<close> and holds the generic layout: a
  header row and a row for the year 2023 with its four amounts. None of the cells of
  the cell maps is filled.
\<close>

definition generic_bilan_workbook :: workbook where
  "generic_bilan_workbook =
     \<lparr>SheetNames = [''Bilan''],
      Sheets =
        [(''Bilan'',
          \<lparr>cell_values = [(''A1'', JStr (ascii ''Exercice'')), (''A2'', JNum (Fin 2023)),
                           (''B2'', JNum (Fin 10700000)), (''C2'', JNum (Fin 6000000)),
                           (''D2'', JNum (Fin 8000000)), (''E2'', JNum (Fin 1000000))],
           json_rows = [[ascii ''Exercice'', ascii ''Total actif'', ascii ''Capitaux propres'',
                         ascii ''Chiffre d affaires'', ascii ''Resultat net''],
                        [ascii ''2023'', ascii ''10700000'', ascii ''6000000'',
                         ascii ''8000000'', ascii ''1000000'']]\<rparr>)]\<rparr>"

definition excel_file_of :: "string \<Rightarrow> workbook \<Rightarrow> excel_file" where
  "excel_file_of t wb = \<lparr>ftype = t, fsize = 20000, workbook_read = Inr wb\<rparr>"

section \<open>Properties of the compliance evaluation\<close>

lemma js_le_trans: "js_le a b \<Longrightarrow> js_le b c \<Longrightarrow> js_le a c"
  by (cases a; cases b; cases c) auto

lemma status_result [simp]: "status (result k v n c s r) = s"
  by (simp add: result_def)

lemma isCompliant_result [simp]: "isCompliant (result k v n c s r) = c"
  by (simp add: result_def)

text \<open>
  C1. A result should be compliant exactly when its status is excellent or good, which is
  also how the compliance panel reads the flag: its legend gives excellent and good as
  conforming to the norms and acceptable as slightly below them, and it counts the
  flagged results as the ratios that conform. \<open>evaluateCompliance\<close> clears the flag only
  for poor and critical, so an acceptable result keeps it: a liquidity ratio of 1 against
  the BCEAO norm \<open>{min: 1.2, optimal: 2.0}\<close> is acceptable (it is at least 0.96), is
  flagged compliant, and carries the recommendation to reach the minimum.
\<close>

theorem checkBceaoCompliance_acceptable_flagged:
  "checkBceaoCompliance [(''ratio_liquidite_generale'', Fin 1)] ''general'' =
    [\<lparr>ratioName = ''ratio_liquidite_generale'', cvalue = Fin 1, cnorm = min_norm 1.2 2.0,
      isCompliant = True, status = Acceptable,
      recommendation = Some (ImproveToMin (Fin 1.2))\<rparr>]"
  by code_simp

text \<open>
  C8. For a min-bound norm (min set, max unset) the status never decreases, in the order
  critical, poor, acceptable, good, excellent of \<open>priorityOrder\<close>, when the value
  grows. A value equal to min is at least good, and good whenever min lies below the
  optimal bound in force; so 1.2 against \<open>{min: 1.2, optimal: 2.0}\<close> is good.
\<close>

theorem evaluateCompliance_min_monotone:
  "nmin n = Some m \<Longrightarrow> nmax n = None \<Longrightarrow> js_le v1 v2 \<Longrightarrow>
     priorityOrder (status (evaluateCompliance k v1 n))
       \<le> priorityOrder (status (evaluateCompliance k v2 n))
     \<and> (js_le m m \<longrightarrow> status (evaluateCompliance k m n) \<in> {Good, Excellent})
     \<and> (js_le m m \<and> \<not> js_ge m (opt_or (optimal n) (js_mul m (Fin 1.5)))
          \<longrightarrow> status (evaluateCompliance k m n) = Good)
     \<and> status (evaluateCompliance k (Fin 1.2) (min_norm 1.2 2.0)) = Good"
proof (intro conjI impI)
  assume n: "nmin n = Some m" "nmax n = None" and le: "js_le v1 v2"
  show "priorityOrder (status (evaluateCompliance k v1 n))
       \<le> priorityOrder (status (evaluateCompliance k v2 n))"
    using n le js_le_trans [of _ v1 v2]
    by (auto simp: evaluateCompliance_def js_ge_def priorityOrder_def)
next
  assume n: "nmin n = Some m" "nmax n = None" and b: "js_le m m"
  then show "status (evaluateCompliance k m n) \<in> {Good, Excellent}"
    by (simp add: evaluateCompliance_def js_ge_def)
next
  assume n: "nmin n = Some m" "nmax n = None"
    and b: "js_le m m \<and> \<not> js_ge m (opt_or (optimal n) (js_mul m (Fin 1.5)))"
  then show "status (evaluateCompliance k m n) = Good"
    by (simp add: evaluateCompliance_def js_ge_def)
next
  show "status (evaluateCompliance k (Fin 1.2) (min_norm 1.2 2.0)) = Good"
    by code_simp
qed

theorem evaluateCompliance_min_monotone_witness:
  "nmin (min_norm 10 20) = Some (Fin 10) \<and> nmax (min_norm 10 20) = None
   \<and> js_le (Fin 9) (Fin 10)
   \<and> priorityOrder (status (evaluateCompliance ''roe'' (Fin 9) (min_norm 10 20)))
       \<le> priorityOrder (status (evaluateCompliance ''roe'' (Fin 10) (min_norm 10 20)))
   \<and> status (evaluateCompliance ''roe'' (Fin 9) (min_norm 10 20)) = Acceptable
   \<and> status (evaluateCompliance ''roe'' (Fin 10) (min_norm 10 20)) = Good"
proof -
  have a: "nmin (min_norm 10 20) = Some (Fin 10)" and b: "nmax (min_norm 10 20) = None"
    and c: "js_le (Fin 9) (Fin 10)"
    by (simp_all add: min_norm_def)
  have d: "status (evaluateCompliance ''roe'' (Fin 9) (min_norm 10 20)) = Acceptable"
    and e: "status (evaluateCompliance ''roe'' (Fin 10) (min_norm 10 20)) = Good"
    by code_simp+
  from evaluateCompliance_min_monotone [OF a b c, of "''roe''"] a b c d e
  show ?thesis by blast
qed

section \<open>Properties of the ratio engine\<close>

lemma map_of_set_if:
  "map_of (set_if c k v r) k' = (if c \<and> k' = k then Some v else map_of r k')"
  by (simp add: set_if_def update_conv')

lemma set_if_all:
  "\<forall>k v'. map_of r k = Some v' \<longrightarrow> P v' \<Longrightarrow> (c \<Longrightarrow> P v)
   \<Longrightarrow> \<forall>k' v'. map_of (set_if c k v r) k' = Some v' \<longrightarrow> P v'"
  by (auto simp: map_of_set_if)

lemma finite_dataD: "finite_data d \<Longrightarrow> map_of d k = Some v \<Longrightarrow> finite_value v"
  by (auto simp: finite_data_def list_all_iff dest!: map_of_SomeD)

lemma present_finite:
  assumes "finite_data d" "present d k"
  shows "\<exists>r. num d k = Fin r \<and> r \<noteq> 0"
proof -
  from assms(2) obtain v where v: "map_of d k = Some v" "fval_truthy v"
    by (auto simp: present_def split: option.splits)
  with assms(1) have "finite_value v"
    by (auto dest: finite_dataD)
  then obtain r where "v = FNum (Fin r)"
    by (cases v rule: finite_value.cases) (auto elim: is_finite.elims)
  with v show ?thesis
    by (simp add: num_def)
qed

lemma js_fin_not_NaN [simp]: "js_fin r \<noteq> NaN"
  by (simp add: js_fin_def)

lemma inf_of_not_NaN [simp]: "inf_of s \<noteq> NaN"
  by (simp add: inf_of_def)

lemma js_div_not_NaN: "x \<noteq> NaN \<Longrightarrow> c \<noteq> 0 \<Longrightarrow> js_div x (Fin c) \<noteq> NaN"
  by (cases x) simp_all

lemma js_mul_100_not_NaN: "x \<noteq> NaN \<Longrightarrow> js_mul x (Fin 100) \<noteq> NaN"
  by (cases x) simp_all

lemma js_add_not_NaN [simp]: "js_add (Fin a) (Fin b) \<noteq> NaN"
  by simp

lemma js_sub_not_NaN [simp]: "js_sub (Fin a) (Fin b) \<noteq> NaN"
  by (simp add: js_sub_def)

lemma pct_not_NaN: "c \<noteq> 0 \<Longrightarrow> pct (Fin a) (Fin c) \<noteq> NaN"
  by (simp add: pct_def js_mul_100_not_NaN js_div_not_NaN)

lemma calculateRatios_no_NaN:
  assumes "finite_data d"
  shows "\<forall>k v. map_of (calculateRatios d) k = Some v \<longrightarrow> v \<noteq> NaN"
  unfolding calculateRatios_def Let_def
  apply (intro set_if_all)
                 apply simp
                apply (auto dest!: present_finite [OF assms] simp: pct_not_NaN js_div_not_NaN)
  done

lemma safe_bound_pos: "0 < safe_bound"
  by (simp add: safe_bound_def)

lemma bound_facts:
  "safe_bound * safe_bound * 100 < overflow_bound"
  "safe_bound * safe_bound < overflow_bound"
  "(safe_bound + safe_bound) * safe_bound < overflow_bound"
  "safe_bound + safe_bound < overflow_bound"
  by (simp_all add: overflow_bound_def safe_bound_def)

lemma js_fin_in_range: "\<bar>r\<bar> < overflow_bound \<Longrightarrow> js_fin r = Fin r"
  by (auto simp: js_fin_def)

lemma quotient_bound:
  fixes a b :: rat
  assumes "\<bar>a\<bar> \<le> A" "1 / safe_bound \<le> \<bar>b\<bar>"
  shows "\<bar>a / b\<bar> \<le> A * safe_bound"
proof -
  have pos: "(0::rat) < 1 / safe_bound"
    using safe_bound_pos by simp
  have "\<bar>a\<bar> / \<bar>b\<bar> \<le> A / (1 / safe_bound)"
    using assms pos by (intro frac_le) auto
  then show ?thesis
    by (simp add: abs_divide)
qed

lemma nonzero_of_bound: "1 / safe_bound \<le> \<bar>b\<bar> \<Longrightarrow> b \<noteq> 0"
  using safe_bound_pos by (auto simp: not_le)

lemma present_moderate:
  assumes "moderate_data d" "present d k"
  shows "\<exists>r. num d k = Fin r \<and> 1 / safe_bound \<le> \<bar>r\<bar> \<and> \<bar>r\<bar> \<le> safe_bound"
proof -
  from assms(2) obtain v where v: "map_of d k = Some v" "fval_truthy v"
    by (auto simp: present_def split: option.splits)
  with assms(1) have "moderate_value v"
    by (auto simp: moderate_data_def list_all_iff dest!: map_of_SomeD)
  then obtain r where "v = FNum (Fin r)" "moderate r"
    by (cases v rule: moderate_value.cases) auto
  with v show ?thesis
    by (auto simp: num_def moderate_def)
qed

lemma quotient_moderate:
  assumes "\<bar>a\<bar> \<le> safe_bound" "1 / safe_bound \<le> \<bar>b\<bar>"
  shows "js_fin (a / b) = Fin (a / b)"
proof -
  have "\<bar>a / b\<bar> \<le> safe_bound * safe_bound"
    using assms by (rule quotient_bound)
  with bound_facts(2) have "\<bar>a / b\<bar> < overflow_bound" by linarith
  then show ?thesis
    by (rule js_fin_in_range)
qed

lemma div_moderate:
  assumes "\<bar>a\<bar> \<le> safe_bound" "1 / safe_bound \<le> \<bar>b\<bar>"
  shows "is_finite (js_div (Fin a) (Fin b))"
  using nonzero_of_bound [OF assms(2)] quotient_moderate [OF assms] by simp

lemma pct_moderate:
  assumes "\<bar>a\<bar> \<le> safe_bound" "1 / safe_bound \<le> \<bar>b\<bar>"
  shows "is_finite (pct (Fin a) (Fin b))"
proof -
  have "\<bar>a / b\<bar> \<le> safe_bound * safe_bound"
    using assms by (rule quotient_bound)
  then have le: "\<bar>a / b\<bar> * 100 \<le> safe_bound * safe_bound * 100"
    by (rule mult_right_mono) simp
  have eq: "\<bar>a / b * 100\<bar> = \<bar>a / b\<bar> * 100"
    by (simp only: abs_mult abs_numeral)
  have "\<bar>a / b * 100\<bar> \<le> safe_bound * safe_bound * 100"
    unfolding eq by (rule le)
  then have "\<bar>a / b * 100\<bar> < overflow_bound"
    using bound_facts(1) by (rule le_less_trans)
  then have "js_fin (a / b * 100) = Fin (a / b * 100)"
    by (rule js_fin_in_range)
  then show ?thesis
    using nonzero_of_bound [OF assms(2)] quotient_moderate [OF assms]
    by (simp add: pct_def)
qed

lemma sum_div_moderate:
  assumes "\<bar>a\<bar> \<le> safe_bound" "\<bar>b\<bar> \<le> safe_bound" "1 / safe_bound \<le> \<bar>c\<bar>"
  shows "is_finite (js_div (js_add (Fin a) (Fin b)) (Fin c))"
proof -
  have s: "\<bar>a + b\<bar> \<le> safe_bound + safe_bound"
    using assms(1,2) by linarith
  with bound_facts(4) have "\<bar>a + b\<bar> < overflow_bound" by linarith
  then have add: "js_fin (a + b) = Fin (a + b)"
    by (rule js_fin_in_range)
  have "\<bar>(a + b) / c\<bar> \<le> (safe_bound + safe_bound) * safe_bound"
    using s assms(3) by (rule quotient_bound)
  with bound_facts(3) have "\<bar>(a + b) / c\<bar> < overflow_bound" by linarith
  then have "js_fin ((a + b) / c) = Fin ((a + b) / c)"
    by (rule js_fin_in_range)
  then show ?thesis
    using nonzero_of_bound [OF assms(3)] by (simp add: add)
qed

lemma sub_moderate:
  assumes "\<bar>a\<bar> \<le> safe_bound" "\<bar>b\<bar> \<le> safe_bound"
  shows "is_finite (js_sub (Fin a) (Fin b))"
proof -
  have "\<bar>a + - b\<bar> \<le> safe_bound + safe_bound"
    using assms by linarith
  with bound_facts(4) have "\<bar>a + - b\<bar> < overflow_bound" by linarith
  then have "js_fin (a + - b) = Fin (a + - b)"
    by (rule js_fin_in_range)
  then show ?thesis
    by (simp add: js_sub_def)
qed

lemma pct_present:
  assumes "moderate_data d" "present d a" "present d b"
  shows "is_finite (pct (num d a) (num d b))"
proof -
  obtain x where x: "num d a = Fin x" "\<bar>x\<bar> \<le> safe_bound"
    using present_moderate [OF assms(1,2)] by blast
  obtain y where y: "num d b = Fin y" "1 / safe_bound \<le> \<bar>y\<bar>"
    using present_moderate [OF assms(1,3)] by blast
  show ?thesis
    unfolding x(1) y(1) using x(2) y(2) by (rule pct_moderate)
qed

lemma div_present:
  assumes "moderate_data d" "present d a" "present d b"
  shows "is_finite (js_div (num d a) (num d b))"
proof -
  obtain x where x: "num d a = Fin x" "\<bar>x\<bar> \<le> safe_bound"
    using present_moderate [OF assms(1,2)] by blast
  obtain y where y: "num d b = Fin y" "1 / safe_bound \<le> \<bar>y\<bar>"
    using present_moderate [OF assms(1,3)] by blast
  show ?thesis
    unfolding x(1) y(1) using x(2) y(2) by (rule div_moderate)
qed

lemma sum_div_present:
  assumes "moderate_data d" "present d a" "present d b" "present d c"
  shows "is_finite (js_div (js_add (num d a) (num d b)) (num d c))"
proof -
  obtain x where x: "num d a = Fin x" "\<bar>x\<bar> \<le> safe_bound"
    using present_moderate [OF assms(1,2)] by blast
  obtain y where y: "num d b = Fin y" "\<bar>y\<bar> \<le> safe_bound"
    using present_moderate [OF assms(1,3)] by blast
  obtain z where z: "num d c = Fin z" "1 / safe_bound \<le> \<bar>z\<bar>"
    using present_moderate [OF assms(1,4)] by blast
  show ?thesis
    unfolding x(1) y(1) z(1) using x(2) y(2) z(2) by (rule sum_div_moderate)
qed

lemma sub_present:
  assumes "moderate_data d" "present d a" "present d b"
  shows "is_finite (js_sub (num d a) (num d b))"
proof -
  obtain x where x: "num d a = Fin x" "\<bar>x\<bar> \<le> safe_bound"
    using present_moderate [OF assms(1,2)] by blast
  obtain y where y: "num d b = Fin y" "\<bar>y\<bar> \<le> safe_bound"
    using present_moderate [OF assms(1,3)] by blast
  show ?thesis
    unfolding x(1) y(1) using x(2) y(2) by (rule sub_moderate)
qed

lemma calculateRatios_moderate_finite:
  assumes "moderate_data d"
  shows "\<forall>k v. map_of (calculateRatios d) k = Some v \<longrightarrow> is_finite v"
  unfolding calculateRatios_def Let_def
  by (intro set_if_all)
    (simp_all add: pct_present div_present sum_div_present sub_present assms)

lemma calculateRatios_roa_zero_assets:
  "map_of d ''total_actif'' = Some (FNum (Fin 0)) \<Longrightarrow> map_of (calculateRatios d) ''roa'' = None"
  by (simp add: calculateRatios_def Let_def map_of_set_if present_def)

text \<open>
  C6 (as the code has it). \<open>calculateRatios\<close> is a total function with no failing
  branch, and each guard tests the truthiness of the fields it reads, so that a numeric
  zero divisor leaves the ratio out. On a FinancialData whose values are finite numbers
  no ratio is NaN, but a ratio can overflow to Infinity; every ratio is finite when each
  value is zero or of magnitude between \<open>2^-300\<close> and \<open>2^300\<close>. The empty object
  gives the empty object, and with \<open>total_actif = 0\<close> and \<open>resultat_net = 100\<close> the
  key \<open>roa\<close> is left out.
\<close>

theorem calculateRatios_finite:
  "finite_data d \<Longrightarrow>
     (\<forall>k v. map_of (calculateRatios d) k = Some v \<longrightarrow> v \<noteq> NaN)
     \<and> (moderate_data d \<longrightarrow> (\<forall>k v. map_of (calculateRatios d) k = Some v \<longrightarrow> is_finite v))
     \<and> calculateRatios [] = []
     \<and> (map_of d ''total_actif'' = Some (FNum (Fin 0))
          \<and> map_of d ''resultat_net'' = Some (FNum (Fin 100))
          \<longrightarrow> map_of (calculateRatios d) ''roa'' = None)"
proof (intro conjI impI)
  assume "finite_data d"
  then show "\<forall>k v. map_of (calculateRatios d) k = Some v \<longrightarrow> v \<noteq> NaN"
    by (rule calculateRatios_no_NaN)
next
  assume "moderate_data d"
  then show "\<forall>k v. map_of (calculateRatios d) k = Some v \<longrightarrow> is_finite v"
    by (rule calculateRatios_moderate_finite)
next
  show "calculateRatios [] = []"
    by code_simp
next
  assume "map_of d ''total_actif'' = Some (FNum (Fin 0))
    \<and> map_of d ''resultat_net'' = Some (FNum (Fin 100))"
  then show "map_of (calculateRatios d) ''roa'' = None"
    by (simp add: calculateRatios_roa_zero_assets)
qed

theorem calculateRatios_finite_witness:
  "finite_data [(''total_actif'', FNum (Fin 0)), (''resultat_net'', FNum (Fin 100)),
       (''capitaux_propres'', FNum (Fin 50))]
   \<and> moderate_data [(''total_actif'', FNum (Fin 0)), (''resultat_net'', FNum (Fin 100)),
       (''capitaux_propres'', FNum (Fin 50))]
   \<and> calculateRatios [(''total_actif'', FNum (Fin 0)), (''resultat_net'', FNum (Fin 100)),
       (''capitaux_propres'', FNum (Fin 50))]
     = [(''roe'', Fin 200)]
   \<and> is_finite (Fin 200)
   \<and> map_of (calculateRatios [(''total_actif'', FNum (Fin 0)),
       (''resultat_net'', FNum (Fin 100)), (''capitaux_propres'', FNum (Fin 50))])
       ''roa'' = None"
proof -
  let ?d = "[(''total_actif'', FNum (Fin 0)), (''resultat_net'', FNum (Fin 100)),
       (''capitaux_propres'', FNum (Fin 50))]"
  have f: "finite_data ?d"
    by code_simp
  have m: "moderate_data ?d"
    by code_simp
  have r: "calculateRatios ?d = [(''roe'', Fin 200)]"
    by code_simp
  from calculateRatios_finite [OF f] f m r show ?thesis by simp
qed

text \<open>
  C6 as stated fails on finite numbers: with \<open>resultat_net = 1e307\<close> and
  \<open>capitaux_propres = 1\<close> both guards pass and the percentage \<open>1e307 / 1 * 100\<close>
  overflows, so \<open>roe\<close> is Infinity.
\<close>

theorem calculateRatios_overflow_counterexample:
  "finite_data [(''resultat_net'', FNum (Fin (10 ^ 307))), (''capitaux_propres'', FNum (Fin 1))]
   \<and> calculateRatios
       [(''resultat_net'', FNum (Fin (10 ^ 307))), (''capitaux_propres'', FNum (Fin 1))]
     = [(''roe'', PInf)]"
  by code_simp

text \<open>
  A FinancialData value may also be a string. The guard tests the string and the division
  its number: \<open>'0'\<close> is truthy and \<open>Number('0')\<close> is zero, so with
  \<open>total_actif = '0'\<close> the ratio \<open>roa\<close> is stored as Infinity.
\<close>

lemma calculateRatios_string_zero:
  "calculateRatios [(''total_actif'', FStr (ascii ''0'')), (''resultat_net'', FNum (Fin 100))]
     = [(''roa'', PInf)]"
  by code_simp

lemma roe_stored_iff:
  "map_of (calculateRatios d) ''roe'' \<noteq> None
     \<longleftrightarrow> present d ''resultat_net'' \<and> present d ''capitaux_propres''"
  by (simp add: calculateRatios_def Let_def map_of_set_if)

lemma roa_stored_iff:
  "map_of (calculateRatios d) ''roa'' \<noteq> None
     \<longleftrightarrow> present d ''resultat_net'' \<and> present d ''total_actif''"
  by (simp add: calculateRatios_def Let_def map_of_set_if)

lemma marge_nette_stored_iff:
  "map_of (calculateRatios d) ''marge_nette'' \<noteq> None
     \<longleftrightarrow> present d ''resultat_net'' \<and> present d ''chiffre_affaires''"
  by (simp add: calculateRatios_def Let_def map_of_set_if)

lemma marge_brute_stored_iff:
  "map_of (calculateRatios d) ''marge_brute'' \<noteq> None
     \<longleftrightarrow> present d ''marge_commerciale'' \<and> present d ''chiffre_affaires''"
  by (simp add: calculateRatios_def Let_def map_of_set_if)

lemma rotation_actif_stored_iff:
  "map_of (calculateRatios d) ''rotation_actif'' \<noteq> None
     \<longleftrightarrow> present d ''chiffre_affaires'' \<and> present d ''total_actif''"
  by (simp add: calculateRatios_def Let_def map_of_set_if)

lemma rotation_stocks_stored_iff:
  "map_of (calculateRatios d) ''rotation_stocks'' \<noteq> None
     \<longleftrightarrow> present d ''chiffre_affaires'' \<and> present d ''total_actif_circulant''"
  by (simp add: calculateRatios_def Let_def map_of_set_if)

lemma zero_not_present: "map_of d k = Some (FNum (Fin 0)) \<Longrightarrow> \<not> present d k"
  by (simp add: present_def)

text \<open>
  C10. A ratio is stored exactly when every field it reads is present and truthy, the
  numerator like the divisor. So with \<open>resultat_net = 0\<close> the keys \<open>roe\<close>,
  \<open>roa\<close> and \<open>marge_nette\<close> are all left out, whatever the divisors are.
\<close>

theorem calculateRatios_zero_numerator:
  "(map_of (calculateRatios d) ''roe'' \<noteq> None
      \<longleftrightarrow> present d ''resultat_net'' \<and> present d ''capitaux_propres'')
   \<and> (map_of (calculateRatios d) ''roa'' \<noteq> None
      \<longleftrightarrow> present d ''resultat_net'' \<and> present d ''total_actif'')
   \<and> (map_of (calculateRatios d) ''marge_nette'' \<noteq> None
      \<longleftrightarrow> present d ''resultat_net'' \<and> present d ''chiffre_affaires'')
   \<and> (map_of (calculateRatios d) ''marge_brute'' \<noteq> None
      \<longleftrightarrow> present d ''marge_commerciale'' \<and> present d ''chiffre_affaires'')
   \<and> (map_of (calculateRatios d) ''rotation_actif'' \<noteq> None
      \<longleftrightarrow> present d ''chiffre_affaires'' \<and> present d ''total_actif'')
   \<and> (map_of (calculateRatios d) ''rotation_stocks'' \<noteq> None
      \<longleftrightarrow> present d ''chiffre_affaires'' \<and> present d ''total_actif_circulant'')
   \<and> (map_of d ''resultat_net'' = Some (FNum (Fin 0)) \<longrightarrow>
        map_of (calculateRatios d) ''roe'' = None
        \<and> map_of (calculateRatios d) ''roa'' = None
        \<and> map_of (calculateRatios d) ''marge_nette'' = None)"
  using roe_stored_iff [of d] roa_stored_iff [of d] marge_nette_stored_iff [of d]
    marge_brute_stored_iff [of d] rotation_actif_stored_iff [of d]
    rotation_stocks_stored_iff [of d] zero_not_present [of d "''resultat_net''"]
  by blast

theorem calculateRatios_zero_numerator_witness:
  "map_of [(''resultat_net'', FNum (Fin 0)), (''capitaux_propres'', FNum (Fin 6)),
       (''total_actif'', FNum (Fin 10)), (''chiffre_affaires'', FNum (Fin 8))]
     ''resultat_net'' = Some (FNum (Fin 0))
   \<and> calculateRatios [(''resultat_net'', FNum (Fin 0)), (''capitaux_propres'', FNum (Fin 6)),
       (''total_actif'', FNum (Fin 10)), (''chiffre_affaires'', FNum (Fin 8))]
     = [(''ratio_autonomie_financiere'', Fin 60), (''rotation_actif'', Fin (4 / 5))]
   \<and> map_of (calculateRatios [(''resultat_net'', FNum (Fin 0)),
       (''capitaux_propres'', FNum (Fin 6)), (''total_actif'', FNum (Fin 10)),
       (''chiffre_affaires'', FNum (Fin 8))]) ''roe'' = None"
proof -
  let ?d = "[(''resultat_net'', FNum (Fin 0)), (''capitaux_propres'', FNum (Fin 6)),
       (''total_actif'', FNum (Fin 10)), (''chiffre_affaires'', FNum (Fin 8))]"
  have z: "map_of ?d ''resultat_net'' = Some (FNum (Fin 0))"
    by simp
  have r: "calculateRatios ?d
      = [(''ratio_autonomie_financiere'', Fin 60), (''rotation_actif'', Fin (4 / 5))]"
    by code_simp
  from calculateRatios_zero_numerator [of ?d] z r show ?thesis by simp
qed

section \<open>Properties of the numeric parser\<close>

text \<open>
  C2. With both separators in the text the rightmost one should be the decimal separator,
  and a lone comma a decimal separator only before at most three digits, so that
  \<open>1.234,56\<close> and \<open>1,234.56\<close> both give 1234.56. The parser of the OCR service
  (\<open>ocrService.ts\<close>) decides the separator in that way; \<open>parseNumericValue\<close> has no such
  step. It turns every comma into a dot and hands the text to \<open>parseFloat\<close>, which stops
  at the second dot: both texts give 1.234, the thousands of \<open>10,700,000\<close> give 10.7, and
  a comma before four digits is still a decimal separator. Only the currency example of
  the claim is parsed as it says.
\<close>

theorem parseNumericValue_comma_to_dot:
  "parseNumericValue (JStr (ascii ''1.234,56'')) = Fin 1.234
   \<and> parseNumericValue (JStr (ascii ''1,234.56'')) = Fin 1.234
   \<and> parseNumericValue (JStr (ascii ''10,700,000'')) = Fin 10.7
   \<and> parseNumericValue (JStr (ascii ''1,2345'')) = Fin 1.2345
   \<and> parseNumericValue (JStr (8364 # ascii '' 1 234'')) = Fin 1234"
  by code_simp

section \<open>Properties of the analysis\<close>

lemma getLatestYearKey_in_keys:
  "getLatestYearKey md = Inr k \<Longrightarrow> map_of md k \<noteq> None"
proof -
  assume a: "getLatestYearKey md = Inr k"
  let ?ys = "sort_key (\<lambda>(k, y). - y) (map (\<lambda>(k, yd). (k, year yd)) md)"
  from a obtain y rest where s: "?ys = (k, y) # rest"
    by (auto simp: getLatestYearKey_def Let_def split: list.splits)
  have "(k, y) \<in> set ?ys"
    by (simp add: s)
  then have "(k, y) \<in> set (map (\<lambda>(k, yd). (k, year yd)) md)"
    by simp
  then have "k \<in> fst ` set md"
    by force
  then show ?thesis
    by (simp add: map_of_eq_None_iff)
qed

lemma generateInsights_error:
  "generateInsights md ar sector = Inl e \<Longrightarrow> e = TypeError ''roe''"
  by (auto simp: generateInsights_def Let_def split: if_splits option.splits sum.splits)

text \<open>
  C4. On a MultiyearData with no year entry \<open>calculateAnalysis\<close> does not reach its
  own guard (\<open>No financial data available for analysis\<close>): \<open>getLatestYearKey\<close>
  reads \<open>years[0].key\<close> on an empty array first, and the call ends with that
  TypeError. On no input at all does the call end with the error of the guard.
\<close>

theorem calculateAnalysis_empty:
  "calculateAnalysis [] sector = Inl (TypeError ''key'')
   \<and> calculateAnalysis md sector \<noteq> Inl (Error ''No financial data available for analysis'')"
proof
  show "calculateAnalysis [] sector = Inl (TypeError ''key'')"
    by (simp add: calculateAnalysis_def getLatestYearKey_def)
  show "calculateAnalysis md sector \<noteq> Inl (Error ''No financial data available for analysis'')"
  proof (cases "getLatestYearKey md")
    case (Inl e)
    then have "e = TypeError ''key''"
      by (auto simp: getLatestYearKey_def Let_def split: list.splits)
    with Inl show ?thesis
      by (simp add: calculateAnalysis_def)
  next
    case (Inr k)
    from getLatestYearKey_in_keys [OF Inr] obtain yd where "map_of md k = Some yd"
      by auto
    with Inr show ?thesis
      by (auto simp: calculateAnalysis_def Let_def
          split: option.splits sum.splits dest: generateInsights_error)
  qed
qed

lemma generateInsights_single_year:
  "length multiyearData < 2 \<Longrightarrow> generateInsights multiyearData allRatios sector = Inr []"
  by (simp add: generateInsights_def)

text \<open>
  C3. With the keys \<open>N\<close> (2024) and \<open>N-1\<close> (2023) the sorted keys are \<open>N\<close>,
  \<open>N-1\<close>, so the code takes \<open>N-1\<close>, the older year, as the latest one. Here the
  ROE went from 10 to 15 and the liquidity ratio of 2024 is 1: the code reports a
  deterioration of 5 points and no liquidity warning.
\<close>

theorem generateInsights_latest_is_oldest:
  "generateInsights
     [(''N'', \<lparr>year = 2024, data = []\<rparr>), (''N-1'', \<lparr>year = 2023, data = []\<rparr>)]
     [(''N'', [(''roe'', Fin 15), (''ratio_liquidite_generale'', Fin 1)]),
      (''N-1'', [(''roe'', Fin 10), (''ratio_liquidite_generale'', Fin 1.5)])]
     ''general''
   = Inr [\<lparr>category = Profitability, itype = Negative, impact = High, quoted = Fin 5\<rparr>]"
  by code_simp

section \<open>Properties of the extraction\<close>

lemma set_if_same: "(c \<Longrightarrow> map_of r k = Some v) \<Longrightarrow> set_if c k v r = r"
  by (simp add: set_if_def update_triv)

lemma present_cong: "map_of a k = map_of b k \<Longrightarrow> present a k = present b k"
  by (simp add: present_def)

lemma num_cong: "map_of a k = map_of b k \<Longrightarrow> num a k = num b k"
  by (simp add: num_def)

lemma map_of_derive_products:
  "map_of (derive_products d) k =
     (if k = ''total_produits_exploitation'' then
        (if js_gt (total_products d) (Fin 0) then Some (FNum (total_products d))
         else if present d ''chiffre_affaires'' then Some (FNum (num d ''chiffre_affaires''))
         else map_of d k)
      else map_of d k)"
  by (simp add: derive_products_def Let_def update_conv')

lemma map_of_derive_year_other:
  "k \<notin> derived_keys \<Longrightarrow> map_of (derive_year d) k = map_of d k"
  by (simp add: derived_keys_def derive_year_def derive_resultat_net_def derive_bfr_def
      derive_working_capital_def derive_charges_def map_of_set_if map_of_derive_products
      split: option.splits)

lemma input_keys:
  "''marge_commerciale'' \<notin> derived_keys" "''chiffre_affaires'' \<notin> derived_keys"
  "''production_stockee'' \<notin> derived_keys" "''production_immobilisee'' \<notin> derived_keys"
  "''subvention_exploitation'' \<notin> derived_keys" "''autres_produits'' \<notin> derived_keys"
  "''transferts_charges'' \<notin> derived_keys" "''resultat_exploitation'' \<notin> derived_keys"
  "''total_actif_circulant'' \<notin> derived_keys" "''total_dettes'' \<notin> derived_keys"
  "''tresorerie_actif'' \<notin> derived_keys" "''tresorerie_passif'' \<notin> derived_keys"
  "''resultat_exercice'' \<notin> derived_keys"
  by (simp_all add: derived_keys_def)

lemma present_derive_year:
  "k \<notin> derived_keys \<Longrightarrow> present (derive_year d) k = present d k"
  by (rule present_cong) (rule map_of_derive_year_other)

lemma num_derive_year:
  "k \<notin> derived_keys \<Longrightarrow> num (derive_year d) k = num d k"
  by (rule num_cong) (rule map_of_derive_year_other)

lemma total_products_derive_year: "total_products (derive_year d) = total_products d"
  by (simp add: total_products_def product_components_def present_derive_year
      num_derive_year input_keys)

lemma tpe_derive_year:
  "map_of (derive_year d) ''total_produits_exploitation''
     = map_of (derive_products d) ''total_produits_exploitation''"
  by (simp add: derive_year_def derive_resultat_net_def derive_bfr_def
      derive_working_capital_def derive_charges_def map_of_set_if split: option.splits)

lemma tce_derive_year:
  "map_of (derive_year d) ''total_charges_exploitation''
     = map_of (derive_charges (derive_products d)) ''total_charges_exploitation''"
  by (simp add: derive_year_def derive_resultat_net_def derive_bfr_def
      derive_working_capital_def map_of_set_if split: option.splits)

lemma wc_derive_year:
  "map_of (derive_year d) ''working_capital''
     = map_of (derive_working_capital (derive_charges (derive_products d))) ''working_capital''"
  by (simp add: derive_year_def derive_resultat_net_def derive_bfr_def map_of_set_if
      split: option.splits)

lemma bfr_derive_year:
  "map_of (derive_year d) ''bfr''
     = map_of (derive_bfr (derive_working_capital (derive_charges (derive_products d)))) ''bfr''"
  by (simp add: derive_year_def derive_resultat_net_def map_of_set_if split: option.splits)

lemma products_fixed: "derive_products (derive_year d) = derive_year d"
proof -
  let ?D = "derive_year d" and ?k = "''total_produits_exploitation''"
  have tpe: "map_of ?D ?k =
      (if js_gt (total_products d) (Fin 0) then Some (FNum (total_products d))
       else if present d ''chiffre_affaires'' then Some (FNum (num d ''chiffre_affaires''))
       else map_of d ?k)"
    by (simp add: tpe_derive_year map_of_derive_products)
  have ca: "present ?D ''chiffre_affaires'' = present d ''chiffre_affaires''"
    "num ?D ''chiffre_affaires'' = num d ''chiffre_affaires''"
    by (simp_all add: present_derive_year num_derive_year input_keys)
  show ?thesis
  proof (cases "js_gt (total_products d) (Fin 0)")
    case True
    then have "AList.update ?k (FNum (total_products d)) ?D = ?D"
      by (intro update_triv) (simp add: tpe)
    with True show ?thesis
      by (simp add: derive_products_def [of ?D] total_products_derive_year)
  next
    case False
    show ?thesis
    proof (cases "present d ''chiffre_affaires''")
      case True
      with False have "AList.update ?k (FNum (num d ''chiffre_affaires'')) ?D = ?D"
        by (intro update_triv) (simp add: tpe)
      with False True show ?thesis
        by (simp add: derive_products_def [of ?D] total_products_derive_year ca)
    next
      case False
      with \<open>\<not> js_gt (total_products d) (Fin 0)\<close> show ?thesis
        by (simp add: derive_products_def [of ?D] total_products_derive_year ca)
    qed
  qed
qed

lemma charges_fixed: "derive_charges (derive_year d) = derive_year d"
proof -
  let ?D = "derive_year d" and ?P = "derive_products d"
  have tpe: "map_of ?D ''total_produits_exploitation'' = map_of ?P ''total_produits_exploitation''"
    by (rule tpe_derive_year)
  have re: "map_of ?D ''resultat_exploitation'' = map_of ?P ''resultat_exploitation''"
    by (simp add: map_of_derive_year_other input_keys map_of_derive_products)
  have same: "present ?D ''total_produits_exploitation'' = present ?P ''total_produits_exploitation''"
    "num ?D ''total_produits_exploitation'' = num ?P ''total_produits_exploitation''"
    "num ?D ''resultat_exploitation'' = num ?P ''resultat_exploitation''"
    using tpe re by (simp_all add: present_def num_def)
  show ?thesis
    unfolding derive_charges_def [of ?D]
    by (rule set_if_same)
       (simp add: tce_derive_year derive_charges_def [of ?P] map_of_set_if same re)
qed

lemma working_capital_fixed: "derive_working_capital (derive_year d) = derive_year d"
proof -
  let ?D = "derive_year d" and ?C = "derive_charges (derive_products d)"
  have keys: "map_of ?C ''total_actif_circulant'' = map_of d ''total_actif_circulant''"
    "map_of ?C ''total_dettes'' = map_of d ''total_dettes''"
    by (simp_all add: derive_charges_def map_of_set_if map_of_derive_products)
  have same: "present ?D ''total_actif_circulant'' = present ?C ''total_actif_circulant''"
    "present ?D ''total_dettes'' = present ?C ''total_dettes''"
    "num ?D ''total_actif_circulant'' = num ?C ''total_actif_circulant''"
    "num ?D ''total_dettes'' = num ?C ''total_dettes''"
    using keys by (simp_all add: present_def num_def map_of_derive_year_other input_keys)
  show ?thesis
    unfolding derive_working_capital_def [of ?D]
    by (rule set_if_same)
       (simp add: wc_derive_year derive_working_capital_def [of ?C] map_of_set_if same)
qed

lemma bfr_fixed: "derive_bfr (derive_year d) = derive_year d"
proof -
  let ?D = "derive_year d"
    and ?W = "derive_working_capital (derive_charges (derive_products d))"
  have W: "k \<notin> derived_keys \<or> k = ''bfr'' \<Longrightarrow> map_of ?W k = map_of d k" for k
    by (auto simp: derived_keys_def derive_working_capital_def derive_charges_def
        map_of_set_if map_of_derive_products)
  have inputs: "present ?D k = present ?W k" "num ?D k = num ?W k"
    if "k \<notin> derived_keys" for k
    using that W [of k] by (simp_all add: present_def num_def map_of_derive_year_other)
  have bfr: "map_of ?D ''bfr'' = map_of (derive_bfr ?W) ''bfr''"
    by (rule bfr_derive_year)
  show ?thesis
    unfolding derive_bfr_def [of ?D]
  proof (rule set_if_same)
    assume c: "\<not> present ?D ''bfr'' \<and> present ?D ''total_actif_circulant''
      \<and> present ?D ''tresorerie_actif'' \<and> present ?D ''total_dettes''
      \<and> present ?D ''tresorerie_passif''"
    then have rest: "present ?W ''total_actif_circulant''" "present ?W ''tresorerie_actif''"
      "present ?W ''total_dettes''" "present ?W ''tresorerie_passif''"
      by (simp_all add: inputs input_keys)
    have "\<not> present ?W ''bfr''"
    proof
      assume p: "present ?W ''bfr''"
      then have "map_of (derive_bfr ?W) ''bfr'' = map_of ?W ''bfr''"
        by (simp add: derive_bfr_def map_of_set_if)
      with bfr p have "present ?D ''bfr''"
        by (simp add: present_def)
      with c show False by simp
    qed
    with rest have "map_of (derive_bfr ?W) ''bfr'' =
        Some (FNum (js_sub (js_sub (num ?W ''total_actif_circulant'') (num ?W ''tresorerie_actif''))
               (js_sub (num ?W ''total_dettes'') (num ?W ''tresorerie_passif''))))"
      by (simp add: derive_bfr_def map_of_set_if)
    then show "map_of ?D ''bfr'' =
        Some (FNum (js_sub (js_sub (num ?D ''total_actif_circulant'') (num ?D ''tresorerie_actif''))
               (js_sub (num ?D ''total_dettes'') (num ?D ''tresorerie_passif''))))"
      by (simp add: bfr inputs input_keys)
  qed
qed

lemma resultat_net_fixed: "derive_resultat_net (derive_year d) = derive_year d"
proof -
  let ?D = "derive_year d"
    and ?Y = "derive_bfr (derive_working_capital (derive_charges (derive_products d)))"
  have D: "?D = derive_resultat_net ?Y"
    by (simp add: derive_year_def)
  show ?thesis
  proof (cases "map_of ?Y ''resultat_exercice''")
    case None
    then have "derive_resultat_net ?Y = ?Y"
      by (simp add: derive_resultat_net_def)
    then show ?thesis
      by (simp add: D)
  next
    case (Some v)
    have D': "?D = set_if (fval_truthy v \<and> \<not> present ?Y ''resultat_net'') ''resultat_net'' v ?Y"
      by (simp add: D derive_resultat_net_def Some)
    have rex: "map_of ?D ''resultat_exercice'' = Some v"
      by (simp add: D' map_of_set_if Some)
    have "set_if (fval_truthy v \<and> \<not> present ?D ''resultat_net'') ''resultat_net'' v ?D = ?D"
    proof (rule set_if_same)
      assume c: "fval_truthy v \<and> \<not> present ?D ''resultat_net''"
      show "map_of ?D ''resultat_net'' = Some v"
      proof (cases "present ?Y ''resultat_net''")
        case True
        then have "present ?D ''resultat_net''"
          by (simp add: D' set_if_def)
        with c show ?thesis by simp
      next
        case False
        with c show ?thesis
          by (simp add: D' map_of_set_if)
      qed
    qed
    then show ?thesis
      by (simp add: derive_resultat_net_def [of ?D] rex)
  qed
qed

lemma derive_year_idem: "derive_year (derive_year d) = derive_year d"
  unfolding derive_year_def [of "derive_year d"]
  by (simp only: products_fixed charges_fixed working_capital_fixed bfr_fixed
      resultat_net_fixed)

lemma derive_entry_idem: "derive_entry (derive_entry e) = derive_entry e"
  by (cases e) (simp add: derive_year_idem)

text \<open>
  C9. Deriving the fields twice gives the same MultiyearData as deriving them once: the
  totals are computed from fields the derivation does not write, and each written
  field already holds the value a second run would store.
\<close>

theorem calculateDerivedFields_idempotent:
  "calculateDerivedFields (calculateDerivedFields multiyearData)
     = calculateDerivedFields multiyearData"
  by (simp add: calculateDerivedFields_def derive_entry_idem)

text \<open>
  C5 (as the code has it). In scenario 1 the extraction yields the year N (2024) with
  the four fields of the cells and, from the derivation, the total of the operating
  products, which is the revenue here. On that data \<open>calculateRatios\<close> gives
  \<open>roa = 1000/107\<close> (about 9.35), \<open>roe = 50/3\<close> (about 16.67) and
  \<open>marge_nette = 12.5\<close>.
\<close>

theorem scenario1_extraction:
  "extractDataFromOhadaTemplate now scenario1_workbook scenario1_config
     = ([(''N'', \<lparr>year = 2024, data = scenario1_data\<rparr>)],
        [SheetNotFound ''TFT'', NoDataForYearKey ''N-1''])
   \<and> scenario1_data =
       [(''total_actif'', FNum (Fin 10700000)), (''capitaux_propres'', FNum (Fin 6000000)),
        (''chiffre_affaires'', FNum (Fin 8000000)), (''resultat_net'', FNum (Fin 1000000)),
        (''total_produits_exploitation'', FNum (Fin 8000000))]
   \<and> map_of (calculateRatios scenario1_data) ''roa'' = Some (Fin (1000 / 107))
   \<and> \<bar>1000 / 107 - 9.35 :: rat\<bar> < 0.005
   \<and> map_of (calculateRatios scenario1_data) ''roe'' = Some (Fin (50 / 3))
   \<and> \<bar>50 / 3 - 16.67 :: rat\<bar> < 0.005
   \<and> map_of (calculateRatios scenario1_data) ''marge_nette'' = Some (Fin 12.5)"
  by code_simp

text \<open>
  C5 as stated fails: the data of the year N is not the object of the four fields, it
  has the key \<open>total_produits_exploitation\<close> too.
\<close>

theorem scenario1_extra_field_counterexample:
  "map_of (fst (extractDataFromOhadaTemplate 2024 scenario1_workbook scenario1_config)) ''N''
     = Some \<lparr>year = 2024, data = scenario1_data\<rparr>
   \<and> map_of scenario1_data ''total_produits_exploitation'' = Some (FNum (Fin 8000000))
   \<and> map_of scenario1_claimed ''total_produits_exploitation'' = None
   \<and> scenario1_data \<noteq> scenario1_claimed"
  by code_simp

section \<open>Properties of the file processing\<close>

lemma map_entry_update_new:
  "map_of md k = None \<Longrightarrow> AList.map_entry k f (AList.update k e md) = md @ [(k, f e)]"
  by (induction md) (auto split: if_splits)

lemma years_filled_map_entry:
  "years_filled md \<Longrightarrow> (\<And>yd. data (f yd) \<noteq> []) \<Longrightarrow> years_filled (AList.map_entry k f md)"
  by (induction md) (auto simp: years_filled_def)

lemma years_filled_append:
  "years_filled (a @ b) \<longleftrightarrow> years_filled a \<and> years_filled b"
  by (simp add: years_filled_def)

lemma years_filled_set_field:
  "years_filled md \<Longrightarrow> years_filled (set_field yk y fk v md)"
proof (cases "map_of md yk")
  case None
  assume "years_filled md"
  with None show ?thesis
    by (simp add: set_field_def map_entry_update_new years_filled_append)
       (simp add: years_filled_def)
next
  case (Some yd)
  assume "years_filled md"
  with Some show ?thesis
    by (simp add: set_field_def years_filled_map_entry)
qed

lemma years_filled_extract_cell:
  "years_filled md \<Longrightarrow> years_filled (extract_cell now ws ry yc yk fk a md)"
  by (simp add: extract_cell_def Let_def years_filled_set_field split: option.splits)

lemma years_filled_extract_field:
  "years_filled md \<Longrightarrow> years_filled (extract_field now ws ry yc e md)"
  by (cases e) (simp add: extract_field_def years_filled_extract_cell)

lemma years_filled_fold_fields:
  "years_filled md \<Longrightarrow> years_filled (fold (extract_field now ws ry yc) ms md)"
  by (induction ms arbitrary: md) (simp_all add: years_filled_extract_field)

lemma years_filled_extract_sheet:
  "years_filled (fst acc) \<Longrightarrow> years_filled (fst (extract_sheet now wb ry yc sh acc))"
  by (cases sh; cases acc)
     (simp add: extract_sheet_def years_filled_fold_fields split: option.splits)

lemma years_filled_fold_sheets:
  "years_filled (fst acc) \<Longrightarrow> years_filled (fst (fold (extract_sheet now wb ry yc) shs acc))"
  by (induction shs arbitrary: acc) (simp_all add: years_filled_extract_sheet)

lemma set_if_nonempty: "r \<noteq> [] \<Longrightarrow> set_if c k v r \<noteq> []"
  by (simp add: set_if_def)

lemma update_nonempty: "AList.update k v d \<noteq> []"
  by (cases d) auto

lemma derive_products_nonempty: "d \<noteq> [] \<Longrightarrow> derive_products d \<noteq> []"
  by (simp add: derive_products_def Let_def update_nonempty)

lemma derive_resultat_net_nonempty: "d \<noteq> [] \<Longrightarrow> derive_resultat_net d \<noteq> []"
  by (simp add: derive_resultat_net_def set_if_nonempty split: option.splits)

lemma derive_year_nonempty: "d \<noteq> [] \<Longrightarrow> derive_year d \<noteq> []"
  unfolding derive_year_def derive_bfr_def derive_working_capital_def derive_charges_def
  by (intro derive_resultat_net_nonempty set_if_nonempty derive_products_nonempty)

lemma years_filled_derived:
  "years_filled md \<Longrightarrow> years_filled (calculateDerivedFields md)"
  by (induction md) (auto simp: years_filled_def calculateDerivedFields_def derive_year_nonempty)

lemma years_filled_ohada:
  "years_filled (fst (extractDataFromOhadaTemplate now wb yc))"
proof -
  have "years_filled (fst (fold (extract_sheet now wb ry yc) sheetsToProcess ([], [])))" for ry
    by (rule years_filled_fold_sheets) (simp add: years_filled_def)
  then show ?thesis
    by (simp add: extractDataFromOhadaTemplate_def Let_def split_beta years_filled_derived)
qed

lemma years_filled_process_row:
  "years_filled md \<Longrightarrow> years_filled (process_row now row md)"
proof -
  have upd: "years_filled (AList.update k \<lparr>year = y, data = fd\<rparr> md)"
    if "years_filled md" "fd \<noteq> []" for k y fd
    using that by (induction md) (auto simp: years_filled_def)
  assume "years_filled md"
  then show ?thesis
    by (auto simp: process_row_def Let_def upd split: list.splits option.splits)
qed

lemma years_filled_fold_rows:
  "years_filled md \<Longrightarrow> years_filled (fold (process_row now) rows md)"
  by (induction rows arbitrary: md) (simp_all add: years_filled_process_row)

lemma years_filled_generic:
  "generic_processing now wb = Inr (md, w) \<Longrightarrow> years_filled md"
  using years_filled_fold_rows [of "[]" now "first_sheet_rows wb"]
  by (auto simp: generic_processing_def Let_def years_filled_def split: if_splits)

lemma years_filled_process_workbook:
  "years_filled (fst (process_workbook now wb yc))"
proof (cases "processWorksheet now wb yc")
  case (Inl e)
  then show ?thesis
    by (simp add: process_workbook_def years_filled_def)
next
  case (Inr r)
  then have "years_filled (fst r)"
    using years_filled_ohada [of now wb yc] years_filled_generic [of now wb "fst r" "snd r"]
    by (auto simp: processWorksheet_def Let_def split: if_splits)
  with Inr show ?thesis
    by (simp add: process_workbook_def)
qed

lemma field_count_zero_iff:
  "years_filled md \<Longrightarrow> field_count md = 0 \<longleftrightarrow> md = []"
  by (cases md) (auto simp: years_filled_def field_count_def)

lemma no_sheet_no_data:
  assumes "map_of (Sheets wb) ''Bilan'' = None" "map_of (Sheets wb) ''CR'' = None"
    "map_of (Sheets wb) ''TFT'' = None"
  shows "fst (extractDataFromOhadaTemplate now wb yc) = []"
  using assms
  by (simp add: extractDataFromOhadaTemplate_def sheetsToProcess_def extract_sheet_def
      calculateDerivedFields_def Let_def)

lemma fold_sheets_warnings:
  "SheetNotFound name \<in> set (snd acc)
     \<or> (name \<in> fst ` set shs \<and> map_of (Sheets wb) name = None)
   \<Longrightarrow> SheetNotFound name \<in> set (snd (fold (extract_sheet now wb ry yc) shs acc))"
proof (induction shs arbitrary: acc)
  case Nil
  then show ?case by simp
next
  case (Cons sh shs)
  obtain n ms where sh: "sh = (n, ms)" by (cases sh)
  obtain md w where acc: "acc = (md, w)" by (cases acc)
  have "SheetNotFound name \<in> set (snd (extract_sheet now wb ry yc sh acc))
      \<or> (name \<in> fst ` set shs \<and> map_of (Sheets wb) name = None)"
    using Cons.prems by (auto simp: sh acc extract_sheet_def split: option.splits)
  then show ?case
    by (simp add: Cons.IH)
qed

lemma missing_sheet_warning:
  assumes "name \<in> {''Bilan'', ''CR'', ''TFT''}" "map_of (Sheets wb) name = None"
  shows "SheetNotFound name \<in> set (snd (extractDataFromOhadaTemplate now wb yc))"
proof -
  have "name \<in> fst ` set sheetsToProcess"
    using assms(1) by (auto simp: sheetsToProcess_def)
  then have "SheetNotFound name
      \<in> set (snd (fold (extract_sheet now wb ry yc) sheetsToProcess ([], [])))" for ry
    using assms(2) by (intro fold_sheets_warnings) simp
  then show ?thesis
    by (simp add: extractDataFromOhadaTemplate_def Let_def split_beta)
qed

lemma data_has_ohada_sheet:
  assumes "fst (extractDataFromOhadaTemplate now wb yc) \<noteq> []"
    and "fst ` set (Sheets wb) \<subseteq> set (SheetNames wb)"
  shows "hasOhadaSheets wb"
proof -
  from assms(1) no_sheet_no_data [of wb now yc]
  obtain n where n: "n \<in> {''Bilan'', ''CR'', ''TFT''}" "map_of (Sheets wb) n \<noteq> None"
    by auto
  then have "n \<in> fst ` set (Sheets wb)"
    by (auto dest: map_of_SomeD intro: rev_image_eqI)
  with assms(2) n(1) show ?thesis
    by (auto simp: hasOhadaSheets_def)
qed

text \<open>
  C7 (as the code has it). For a file of a supported type and size whose workbook is
  read and has a sheet, the result is a failure exactly when the processing (the cell-map
  extraction, or the generic layout when that finds no year) yields no field in any
  year, and the failure is the explicit one, with the warnings. When one of the sheets
  \<open>Bilan\<close>, \<open>CR\<close>, \<open>TFT\<close> is absent from a workbook that lists its sheets and the
  cell-map extraction itself yields fields, the result is a success with the extracted
  data and the warnings of the extraction, the one for the missing sheet among them.
\<close>

theorem processExcelFile_failure_iff:
  assumes "ftype f \<in> set validTypes" "fsize f \<le> 10 * 1024 * 1024"
    "workbook_read f = Inr wb" "SheetNames wb \<noteq> []"
  shows "(\<not> success (processExcelFile now f yc)
            \<longleftrightarrow> field_count (fst (process_workbook now wb yc)) = 0)
     \<and> (\<not> success (processExcelFile now f yc) \<longrightarrow>
          processExcelFile now f yc
            = failed NoValidFinancialData (Some (snd (process_workbook now wb yc))))
     \<and> (name \<in> {''Bilan'', ''CR'', ''TFT''} \<and> map_of (Sheets wb) name = None
          \<and> fst ` set (Sheets wb) \<subseteq> set (SheetNames wb)
          \<and> fst (extractDataFromOhadaTemplate now wb yc) \<noteq> [] \<longrightarrow>
          processExcelFile now f yc
            = \<lparr>success = True,
               rdata = Some (fst (extractDataFromOhadaTemplate now wb yc)),
               rerror = None,
               rwarnings = Some (snd (extractDataFromOhadaTemplate now wb yc))\<rparr>
          \<and> SheetNotFound name \<in> set (snd (extractDataFromOhadaTemplate now wb yc))
          \<and> 0 < field_count (fst (extractDataFromOhadaTemplate now wb yc)))"
proof (intro conjI impI)
  obtain md w where pw: "process_workbook now wb yc = (md, w)"
    by (cases "process_workbook now wb yc")
  have filled: "years_filled md"
    using years_filled_process_workbook [of now wb yc] by (simp add: pw)
  have res: "processExcelFile now f yc =
      (if md = [] then failed NoValidFinancialData (Some w)
       else \<lparr>success = True, rdata = Some md, rerror = None,
              rwarnings = (if w \<noteq> [] then Some w else None)\<rparr>)"
    using assms by (simp add: processExcelFile_def pw)
  show "\<not> success (processExcelFile now f yc)
      \<longleftrightarrow> field_count (fst (process_workbook now wb yc)) = 0"
    using field_count_zero_iff [OF filled] by (simp add: res pw failed_def)
  show "processExcelFile now f yc
      = failed NoValidFinancialData (Some (snd (process_workbook now wb yc)))"
    if "\<not> success (processExcelFile now f yc)"
    using that by (simp add: res pw split: if_splits)
  assume h: "name \<in> {''Bilan'', ''CR'', ''TFT''} \<and> map_of (Sheets wb) name = None
      \<and> fst ` set (Sheets wb) \<subseteq> set (SheetNames wb)
      \<and> fst (extractDataFromOhadaTemplate now wb yc) \<noteq> []"
  let ?E = "extractDataFromOhadaTemplate now wb yc"
  from h have ohada: "hasOhadaSheets wb"
    by (intro data_has_ohada_sheet [of now wb yc]) simp_all
  with h have "process_workbook now wb yc = ?E"
    by (simp add: process_workbook_def processWorksheet_def Let_def)
  with pw have E: "?E = (md, w)" by simp
  show warn: "SheetNotFound name \<in> set (snd ?E)"
    using h by (intro missing_sheet_warning) simp_all
  then have "w \<noteq> []"
    by (auto simp: E)
  with h show "processExcelFile now f yc
      = \<lparr>success = True, rdata = Some (fst ?E), rerror = None, rwarnings = Some (snd ?E)\<rparr>"
    by (simp add: res E)
  from h show "0 < field_count (fst ?E)"
    using field_count_zero_iff [OF years_filled_ohada [of now wb yc]] by simp
qed

theorem processExcelFile_failure_iff_witness:
  "ftype (scenario1_file ''application/vnd.ms-excel'') \<in> set validTypes
   \<and> fsize (scenario1_file ''application/vnd.ms-excel'') \<le> 10 * 1024 * 1024
   \<and> workbook_read (scenario1_file ''application/vnd.ms-excel'') = Inr scenario1_workbook
   \<and> SheetNames scenario1_workbook \<noteq> []
   \<and> map_of (Sheets scenario1_workbook) ''TFT'' = None
   \<and> fst ` set (Sheets scenario1_workbook) \<subseteq> set (SheetNames scenario1_workbook)
   \<and> processExcelFile 2024 (scenario1_file ''application/vnd.ms-excel'') scenario1_config
       = \<lparr>success = True,
          rdata = Some [(''N'', \<lparr>year = 2024, data = scenario1_data\<rparr>)],
          rerror = None,
          rwarnings = Some [SheetNotFound ''TFT'', NoDataForYearKey ''N-1'']\<rparr>
   \<and> field_count (fst (process_workbook 2024 scenario1_workbook scenario1_config)) = 5"
proof -
  let ?f = "scenario1_file ''application/vnd.ms-excel''"
  have a: "ftype ?f \<in> set validTypes" "fsize ?f \<le> 10 * 1024 * 1024"
    "workbook_read ?f = Inr scenario1_workbook" "SheetNames scenario1_workbook \<noteq> []"
    by (simp_all add: scenario1_file_def validTypes_def scenario1_workbook_def)
  have b: "map_of (Sheets scenario1_workbook) ''TFT'' = None"
    "fst ` set (Sheets scenario1_workbook) \<subseteq> set (SheetNames scenario1_workbook)"
    by (simp_all add: scenario1_workbook_def)
  have e: "extractDataFromOhadaTemplate 2024 scenario1_workbook scenario1_config
      = ([(''N'', \<lparr>year = 2024, data = scenario1_data\<rparr>)],
         [SheetNotFound ''TFT'', NoDataForYearKey ''N-1''])"
    by code_simp
  have c: "field_count (fst (process_workbook 2024 scenario1_workbook scenario1_config)) = 5"
    by code_simp
  from processExcelFile_failure_iff [OF a, of 2024 scenario1_config "''TFT''"] a b c
  show ?thesis
    by (simp add: e)
qed

text \<open>
  C7 as stated fails: a file of another type is a failure whatever its workbook holds,
  here the workbook of scenario 1 with its five fields.
\<close>

theorem processExcelFile_type_counterexample:
  "processExcelFile 2024 (scenario1_file ''application/vnd.oasis.opendocument.spreadsheet'')
       scenario1_config
     = \<lparr>success = False, rdata = None, rerror = Some UnsupportedType, rwarnings = None\<rparr>
   \<and> field_count (fst (process_workbook 2024 scenario1_workbook scenario1_config)) = 5"
  by code_simp

text \<open>
  The warning for a missing sheet belongs to the cell-map extraction. When that extraction
  yields no year, the generic layout is read from the first sheet with a warning list of
  its own: a workbook with the only sheet \<open>Bilan\<close>, in the generic layout, is a
  success with the fields of its row and no warning, though \<open>CR\<close> and \<open>TFT\<close> are
  absent.
\<close>

lemma processExcelFile_fallback_no_warning:
  "map_of (Sheets generic_bilan_workbook) ''CR'' = None
   \<and> map_of (Sheets generic_bilan_workbook) ''TFT'' = None
   \<and> fst (extractDataFromOhadaTemplate 2024 generic_bilan_workbook None) = []
   \<and> processExcelFile 2024 (excel_file_of ''application/vnd.ms-excel'' generic_bilan_workbook)
        None
      = \<lparr>success = True,
         rdata = Some [(''N-1'', \<lparr>year = 2023, data = scenario1_claimed\<rparr>)],
         rerror = None, rwarnings = None\<rparr>"
  by code_simp

end
